theory Spec2Isabelle
  imports Main "HOL-Library.Word"
begin

text \<open>
  A model of the output engine of the logging library: the per-level dispatch table,
  the writer wrappers and the logger's sync and close, the construction of a writer from
  a configuration, the generator of file names and the rotating file sink. Every
  function is the effect of one call; a mutex or lock in the source serialises the
  calls and has no other part in the model. Errors are values: a function that can
  fail returns \<open>Inl\<close> of the error or an \<open>error option\<close> beside its result.
\<close>


section \<open>The per-level dispatch table (core.go)\<close>

text \<open>
  \<^verbatim>\<open>core.go\<close> keeps one encoder and one writer per level in two structs, \<^verbatim>\<open>encoders\<close> and
  \<^verbatim>\<open>writers\<close>, each behind a read-write lock. A \<^verbatim>\<open>Level\<close> is a small unsigned number, so a
  caller can pass \<^verbatim>\<open>of\<close> a value that is none of the named levels.
\<close>

type_synonym Level = "8 word"

text \<open>
  Modelled from the spec: the level constants. Their declaration is in another file of
  the package; the comment on \<^verbatim>\<open>core.level\<close> names them in ascending order (DebugLevel,
  InfoLevel, WarnLevel, ErrorLevel, OffLevel), as the specification orders the
  severities (debug < info < warn < error). The theorems use only that the constants
  are pairwise distinct.
\<close>

definition DebugLevel :: Level where "DebugLevel = 0"
definition InfoLevel :: Level where "InfoLevel = 1"
definition WarnLevel :: Level where "WarnLevel = 2"
definition ErrorLevel :: Level where "ErrorLevel = 3"
definition OffLevel :: Level where "OffLevel = 4"

lemmas Level_defs = DebugLevel_def InfoLevel_def WarnLevel_def ErrorLevel_def OffLevel_def

text \<open>
  An \<^verbatim>\<open>Encoder\<close> and an \<^verbatim>\<open>io.Writer\<close> are interface values: \<open>None\<close> is Go's \<^verbatim>\<open>nil\<close>,
  \<open>Some x\<close> a value that holds the object \<open>x\<close>. The \<^verbatim>\<open>lock\<close> field serialises the
  methods; each method below is the effect of one call made while it holds the lock.
\<close>

record 'e encoders =
  debugEncoder :: "'e option"
  infoEncoder :: "'e option"
  warnEncoder :: "'e option"
  errorEncoder :: "'e option"

record 'w writers =
  debugWriter :: "'w option"
  infoWriter :: "'w option"
  warnWriter :: "'w option"
  errorWriter :: "'w option"

definition newEncoders :: "'e option \<Rightarrow> 'e encoders" where
  "newEncoders encoder =
     \<lparr>debugEncoder = encoder, infoEncoder = encoder, warnEncoder = encoder, errorEncoder = encoder\<rparr>"

definition encoders_of :: "'e encoders \<Rightarrow> Level \<Rightarrow> 'e option" where
  "encoders_of es level =
     (if level = DebugLevel then debugEncoder es
      else if level = InfoLevel then infoEncoder es
      else if level = WarnLevel then warnEncoder es
      else errorEncoder es)"

definition SetEncoder :: "'e encoders \<Rightarrow> 'e option \<Rightarrow> 'e encoders" where
  "SetEncoder es encoder =
     es\<lparr>debugEncoder := encoder, infoEncoder := encoder, warnEncoder := encoder, errorEncoder := encoder\<rparr>"

definition SetDebugEncoder :: "'e encoders \<Rightarrow> 'e option \<Rightarrow> 'e encoders" where
  "SetDebugEncoder es encoder = es\<lparr>debugEncoder := encoder\<rparr>"

definition SetInfoEncoder :: "'e encoders \<Rightarrow> 'e option \<Rightarrow> 'e encoders" where
  "SetInfoEncoder es encoder = es\<lparr>infoEncoder := encoder\<rparr>"

definition SetWarnEncoder :: "'e encoders \<Rightarrow> 'e option \<Rightarrow> 'e encoders" where
  "SetWarnEncoder es encoder = es\<lparr>warnEncoder := encoder\<rparr>"

definition SetErrorEncoder :: "'e encoders \<Rightarrow> 'e option \<Rightarrow> 'e encoders" where
  "SetErrorEncoder es encoder = es\<lparr>errorEncoder := encoder\<rparr>"

definition newWriters :: "'w option \<Rightarrow> 'w writers" where
  "newWriters writer =
     \<lparr>debugWriter = writer, infoWriter = writer, warnWriter = writer, errorWriter = writer\<rparr>"

definition writers_of :: "'w writers \<Rightarrow> Level \<Rightarrow> 'w option" where
  "writers_of ws level =
     (if level = DebugLevel then debugWriter ws
      else if level = InfoLevel then infoWriter ws
      else if level = WarnLevel then warnWriter ws
      else errorWriter ws)"

definition SetWriter :: "'w writers \<Rightarrow> 'w option \<Rightarrow> 'w writers" where
  "SetWriter ws writer =
     ws\<lparr>debugWriter := writer, infoWriter := writer, warnWriter := writer, errorWriter := writer\<rparr>"

definition SetDebugWriter :: "'w writers \<Rightarrow> 'w option \<Rightarrow> 'w writers" where
  "SetDebugWriter ws writer = ws\<lparr>debugWriter := writer\<rparr>"

definition SetInfoWriter :: "'w writers \<Rightarrow> 'w option \<Rightarrow> 'w writers" where
  "SetInfoWriter ws writer = ws\<lparr>infoWriter := writer\<rparr>"

definition SetWarnWriter :: "'w writers \<Rightarrow> 'w option \<Rightarrow> 'w writers" where
  "SetWarnWriter ws writer = ws\<lparr>warnWriter := writer\<rparr>"

definition SetErrorWriter :: "'w writers \<Rightarrow> 'w option \<Rightarrow> 'w writers" where
  "SetErrorWriter ws writer = ws\<lparr>errorWriter := writer\<rparr>"

text \<open>
  \<^verbatim>\<open>core\<close> holds both tables; \<^verbatim>\<open>newCore\<close> builds them from one encoder and one writer.
  The atomic \<^verbatim>\<open>level\<close> and \<^verbatim>\<open>needCaller\<close> cells play no part in the lookups.
\<close>

record ('e, 'w) core =
  core_encoders :: "'e encoders"
  core_writers :: "'w writers"

definition newCore :: "'e option \<Rightarrow> 'w option \<Rightarrow> ('e, 'w) core" where
  "newCore encoder writer = \<lparr>core_encoders = newEncoders encoder, core_writers = newWriters writer\<rparr>"

definition core_of :: "('e, 'w) core \<Rightarrow> Level \<Rightarrow> 'e option \<times> 'w option" where
  "core_of c level = (encoders_of (core_encoders c) level, writers_of (core_writers c) level)"

text \<open>A reconfiguration is one call of a setter on \<^verbatim>\<open>c.Encoders()\<close> or \<^verbatim>\<open>c.Writers()\<close>.\<close>

datatype ('e, 'w) mutation =
    MSetEncoder "'e option"
  | MSetDebugEncoder "'e option"
  | MSetInfoEncoder "'e option"
  | MSetWarnEncoder "'e option"
  | MSetErrorEncoder "'e option"
  | MSetWriter "'w option"
  | MSetDebugWriter "'w option"
  | MSetInfoWriter "'w option"
  | MSetWarnWriter "'w option"
  | MSetErrorWriter "'w option"

fun mutate :: "('e, 'w) core \<Rightarrow> ('e, 'w) mutation \<Rightarrow> ('e, 'w) core" where
  "mutate c (MSetEncoder e) = c\<lparr>core_encoders := SetEncoder (core_encoders c) e\<rparr>"
| "mutate c (MSetDebugEncoder e) = c\<lparr>core_encoders := SetDebugEncoder (core_encoders c) e\<rparr>"
| "mutate c (MSetInfoEncoder e) = c\<lparr>core_encoders := SetInfoEncoder (core_encoders c) e\<rparr>"
| "mutate c (MSetWarnEncoder e) = c\<lparr>core_encoders := SetWarnEncoder (core_encoders c) e\<rparr>"
| "mutate c (MSetErrorEncoder e) = c\<lparr>core_encoders := SetErrorEncoder (core_encoders c) e\<rparr>"
| "mutate c (MSetWriter w) = c\<lparr>core_writers := SetWriter (core_writers c) w\<rparr>"
| "mutate c (MSetDebugWriter w) = c\<lparr>core_writers := SetDebugWriter (core_writers c) w\<rparr>"
| "mutate c (MSetInfoWriter w) = c\<lparr>core_writers := SetInfoWriter (core_writers c) w\<rparr>"
| "mutate c (MSetWarnWriter w) = c\<lparr>core_writers := SetWarnWriter (core_writers c) w\<rparr>"
| "mutate c (MSetErrorWriter w) = c\<lparr>core_writers := SetErrorWriter (core_writers c) w\<rparr>"

fun mutation_arg_nonnil :: "('e, 'w) mutation \<Rightarrow> bool" where
  "mutation_arg_nonnil (MSetEncoder e) = (e \<noteq> None)"
| "mutation_arg_nonnil (MSetDebugEncoder e) = (e \<noteq> None)"
| "mutation_arg_nonnil (MSetInfoEncoder e) = (e \<noteq> None)"
| "mutation_arg_nonnil (MSetWarnEncoder e) = (e \<noteq> None)"
| "mutation_arg_nonnil (MSetErrorEncoder e) = (e \<noteq> None)"
| "mutation_arg_nonnil (MSetWriter w) = (w \<noteq> None)"
| "mutation_arg_nonnil (MSetDebugWriter w) = (w \<noteq> None)"
| "mutation_arg_nonnil (MSetInfoWriter w) = (w \<noteq> None)"
| "mutation_arg_nonnil (MSetWarnWriter w) = (w \<noteq> None)"
| "mutation_arg_nonnil (MSetErrorWriter w) = (w \<noteq> None)"

definition all_set :: "('e, 'w) core \<Rightarrow> bool" where
  "all_set c \<longleftrightarrow>
     debugEncoder (core_encoders c) \<noteq> None \<and> infoEncoder (core_encoders c) \<noteq> None \<and>
     warnEncoder (core_encoders c) \<noteq> None \<and> errorEncoder (core_encoders c) \<noteq> None \<and>
     debugWriter (core_writers c) \<noteq> None \<and> infoWriter (core_writers c) \<noteq> None \<and>
     warnWriter (core_writers c) \<noteq> None \<and> errorWriter (core_writers c) \<noteq> None"


section \<open>Writers and the capabilities of what they wrap (package writer)\<close>

text \<open>
  Go finds out at run time whether the value held by an interface has further methods
  (\<^verbatim>\<open>ww.writer.(Flusher)\<close>, \<^verbatim>\<open>l.handler.(Syncer)\<close>, \<^verbatim>\<open>l.handler.(io.Closer)\<close>). An
  \<open>object\<close> is such a value whose type is defined outside these files (an \<^verbatim>\<open>*os.File\<close>, a
  buffer, a handler): the flags say which methods its type has, the \<open>on...\<close> fields give
  what a call returns after the calls it has received so far, and \<open>calls\<close> records every
  call it receives, in order. An \<open>error\<close> is a Go error value that is not \<^verbatim>\<open>nil\<close>; an
  \<open>error option\<close> is a Go \<^verbatim>\<open>error\<close>, \<open>None\<close> being \<^verbatim>\<open>nil\<close>.
\<close>

datatype error =
    NumError string string string  \<comment> \<open>\<^verbatim>\<open>*strconv.NumError{Func, Num, Err}\<close>\<close>
  | Errorf string  \<comment> \<open>\<^verbatim>\<open>fmt.Errorf\<close>, with the formatted message\<close>
  | InvalidDuration string  \<comment> \<open>\<^verbatim>\<open>time: invalid duration\<close>, with the input\<close>
  | MissingUnit string  \<comment> \<open>\<^verbatim>\<open>time: missing unit in duration\<close>, with the input\<close>
  | UnknownUnit string string  \<comment> \<open>\<^verbatim>\<open>time: unknown unit\<close>, with the unit and the input\<close>
  | Other string  \<comment> \<open>an error made outside these files, with its message\<close>

type_synonym bytes = "8 word list"

datatype call = WriteCall bytes | FlushCall | SyncCall | CloseCall

record object =
  hasFlush :: bool
  hasSync :: bool
  hasClose :: bool
  onWrite :: "call list \<Rightarrow> bytes \<Rightarrow> int \<times> error option"
  onFlush :: "call list \<Rightarrow> int \<times> error option"
  onSync :: "call list \<Rightarrow> error option"
  onClose :: "call list \<Rightarrow> error option"
  calls :: "call list"

definition obj_Write :: "object \<Rightarrow> bytes \<Rightarrow> (int \<times> error option) \<times> object" where
  "obj_Write x p = (onWrite x (calls x) p, x\<lparr>calls := calls x @ [WriteCall p]\<rparr>)"

definition obj_Flush :: "object \<Rightarrow> (int \<times> error option) \<times> object" where
  "obj_Flush x = (onFlush x (calls x), x\<lparr>calls := calls x @ [FlushCall]\<rparr>)"

definition obj_Sync :: "object \<Rightarrow> error option \<times> object" where
  "obj_Sync x = (onSync x (calls x), x\<lparr>calls := calls x @ [SyncCall]\<rparr>)"

definition obj_Close :: "object \<Rightarrow> error option \<times> object" where
  "obj_Close x = (onClose x (calls x), x\<lparr>calls := calls x @ [CloseCall]\<rparr>)"

text \<open>
  An \<^verbatim>\<open>io.Writer\<close> of this package is either such an object or a \<^verbatim>\<open>*writerWrapper\<close> around
  an \<^verbatim>\<open>io.Writer\<close>. The wrapper has all three methods of \<^verbatim>\<open>Writer\<close>.
\<close>

datatype iowriter = Ext object | WriterWrapper iowriter

fun implementsFlusher :: "iowriter \<Rightarrow> bool" where
  "implementsFlusher (Ext x) = hasFlush x"
| "implementsFlusher (WriterWrapper u) = True"

fun implementsCloser :: "iowriter \<Rightarrow> bool" where
  "implementsCloser (Ext x) = hasClose x"
| "implementsCloser (WriterWrapper u) = True"

definition implementsWriter :: "iowriter \<Rightarrow> bool" where
  "implementsWriter w \<longleftrightarrow> implementsFlusher w \<and> implementsCloser w"

text \<open>
  The three methods, dispatched on the value held. On an object a method is only called
  after the type assertion for it has succeeded. \<^verbatim>\<open>writerWrapper.Flush\<close> and
  \<^verbatim>\<open>writerWrapper.Close\<close> forward when the wrapped writer has the method and otherwise
  return \<^verbatim>\<open>(0, nil)\<close> and \<^verbatim>\<open>nil\<close>; \<^verbatim>\<open>writerWrapper.Write\<close> always forwards.
\<close>

fun Flush :: "iowriter \<Rightarrow> (int \<times> error option) \<times> iowriter" where
  "Flush (Ext x) = (case obj_Flush x of (r, x') \<Rightarrow> (r, Ext x'))"
| "Flush (WriterWrapper u) =
     (if implementsFlusher u then (case Flush u of (r, u') \<Rightarrow> (r, WriterWrapper u'))
      else ((0, None), WriterWrapper u))"

fun Write :: "iowriter \<Rightarrow> bytes \<Rightarrow> (int \<times> error option) \<times> iowriter" where
  "Write (Ext x) p = (case obj_Write x p of (r, x') \<Rightarrow> (r, Ext x'))"
| "Write (WriterWrapper u) p = (case Write u p of (r, u') \<Rightarrow> (r, WriterWrapper u'))"

fun Close :: "iowriter \<Rightarrow> error option \<times> iowriter" where
  "Close (Ext x) = (case obj_Close x of (r, x') \<Rightarrow> (r, Ext x'))"
| "Close (WriterWrapper u) =
     (if implementsCloser u then (case Close u of (r, u') \<Rightarrow> (r, WriterWrapper u'))
      else (None, WriterWrapper u))"

text \<open>The calls received so far by the object at the bottom of a chain of wrappers.\<close>

fun calls_of :: "iowriter \<Rightarrow> call list" where
  "calls_of (Ext x) = calls x"
| "calls_of (WriterWrapper u) = calls_of u"

definition KB :: nat where "KB = 1024"
definition MB :: nat where "MB = 1024 * KB"
definition bufferSize :: nat where "bufferSize = 16 * KB"

definition Wrapped :: "iowriter \<Rightarrow> iowriter" where
  "Wrapped writer = (if implementsWriter writer then writer else WriterWrapper writer)"

text \<open>
  \<^verbatim>\<open>newBufferedWriter\<close> is defined in another file of the package; \<^verbatim>\<open>Buffered\<close> takes it as
  a parameter.
\<close>

definition Buffered :: "(iowriter \<Rightarrow> nat \<Rightarrow> iowriter) \<Rightarrow> iowriter \<Rightarrow> iowriter" where
  "Buffered newBufferedWriter writer =
     (if implementsWriter writer then writer else newBufferedWriter writer bufferSize)"

section \<open>The logger: Sync, Close and the sync task\<close>

text \<open>
  A \<^verbatim>\<open>Logger\<close> holds a handler; \<^verbatim>\<open>Sync\<close> and \<^verbatim>\<open>Close\<close> probe it for \<^verbatim>\<open>Syncer\<close> and
  \<^verbatim>\<open>io.Closer\<close>. \<^verbatim>\<open>syncDuration\<close> is a \<^verbatim>\<open>time.Duration\<close>, a number of nanoseconds.
\<close>

record Logger =
  handler :: object
  withSource :: bool
  withPID :: bool
  syncDuration :: int

definition Logger_Sync :: "Logger \<Rightarrow> error option \<times> Logger" where
  "Logger_Sync l =
     (if hasSync (handler l) then (case obj_Sync (handler l) of (r, h') \<Rightarrow> (r, l\<lparr>handler := h'\<rparr>))
      else (None, l))"

definition Logger_Close :: "Logger \<Rightarrow> error option \<times> Logger" where
  "Logger_Close l =
     (case Logger_Sync l of
        (Some err, l') \<Rightarrow> (Some err, l')
      | (None, l') \<Rightarrow>
          (if hasClose (handler l') then (case obj_Close (handler l') of (r, h') \<Rightarrow> (r, l'\<lparr>handler := h'\<rparr>))
           else (None, l')))"

text \<open>
  The background tasks. Both \<^verbatim>\<open>Logger.runSyncTask\<close> and \<^verbatim>\<open>Config.newWriter\<close> start a
  goroutine whose body is \<^verbatim>\<open>for { time.Sleep(d); if err := x.Sync(); err != nil {
  defaults.HandleError(name, err) } }\<close>. A task's state is what the goroutine can reach:
  the object it syncs, the time it has slept, and the reports it has handed to
  \<^verbatim>\<open>defaults.HandleError\<close> (the process-wide handler, which is outside these files and
  is modelled as the list of its invocations).

  A \<^verbatim>\<open>for\<close> without condition, \<^verbatim>\<open>break\<close> or \<^verbatim>\<open>return\<close> is \<open>forever\<close>: it returns \<open>Some s\<close>
  if the loop is ever left in state \<open>s\<close> and \<open>None\<close> if it runs without end.
\<close>

record 'a task =
  target :: 'a
  slept :: int
  reported :: "(string \<times> error) list"






text \<open>
  \<^verbatim>\<open>runSyncTask\<close> starts no goroutine when \<^verbatim>\<open>syncDuration <= 0\<close>; otherwise it starts the
  loop on the logger and returns. The result is the initial state of the task started.
\<close>

definition runSyncTask :: "Logger \<Rightarrow> Logger task option" where
  "runSyncTask l =
     (if syncDuration l \<le> 0 then None else Some \<lparr>target = l, slept = 0, reported = []\<rparr>)"

section \<open>Configuration (Config.parseTimeDuration, Config.newFile, Config.newWriter)\<close>

subsection \<open>Strings and numbers of the standard library\<close>

text \<open>
  A Go string is a sequence of bytes; \<open>string\<close> is the list of them.
  \<^verbatim>\<open>strings.HasSuffix\<close>, \<^verbatim>\<open>strings.TrimSuffix\<close>, \<^verbatim>\<open>strconv.ParseInt(s, 10, 64)\<close> and
  \<^verbatim>\<open>strconv.Itoa\<close> are modelled after the standard library, which is not part of the
  repository.
\<close>

definition HasSuffix :: "string \<Rightarrow> string \<Rightarrow> bool" where
  "HasSuffix s suffix \<longleftrightarrow>
     length s \<ge> length suffix \<and> drop (length s - length suffix) s = suffix"

definition TrimSuffix :: "string \<Rightarrow> string \<Rightarrow> string" where
  "TrimSuffix s suffix = (if HasSuffix s suffix then take (length s - length suffix) s else s)"

definition isDigit :: "char \<Rightarrow> bool" where
  "isDigit c \<longleftrightarrow> (48::nat) \<le> of_char c \<and> (of_char c :: nat) \<le> 57"

definition digitVal :: "char \<Rightarrow> nat" where
  "digitVal c = of_char c - 48"

definition digitChar :: "nat \<Rightarrow> char" where
  "digitChar d = char_of (48 + d)"

definition ErrSyntax :: string where "ErrSyntax = ''invalid syntax''"
definition ErrRange :: string where "ErrRange = ''value out of range''"

definition maxUint64 :: nat where "maxUint64 = 2 ^ 64 - 1"

text \<open>
  The loop of \<^verbatim>\<open>ParseUint\<close> for base 10 and 64 bits, on \<^verbatim>\<open>uint64\<close>: a byte that is not a
  decimal digit is a syntax error (a letter is a digit beyond the base, an underscore
  counts only with base 0); \<^verbatim>\<open>n >= cutoff\<close> means \<^verbatim>\<open>n*10\<close> overflows; the sum wraps
  modulo \<open>2 ^ 64\<close> and a wrapped sum is below \<^verbatim>\<open>n*10\<close>. The result is the pair of the
  value and the \<^verbatim>\<open>Err\<close> of the error, if any.
\<close>

fun ParseUint_loop :: "nat \<Rightarrow> string \<Rightarrow> nat \<times> string option" where
  "ParseUint_loop n [] = (n, None)"
| "ParseUint_loop n (c # cs) =
     (if \<not> isDigit c then (0, Some ErrSyntax)
      else if n \<ge> maxUint64 div 10 + 1 then (maxUint64, Some ErrRange)
      else (let n1 = (n * 10 + digitVal c) mod 2 ^ 64 in
            if n1 < n * 10 \<or> n1 > maxUint64 then (maxUint64, Some ErrRange)
            else ParseUint_loop n1 cs))"

definition ParseUint :: "string \<Rightarrow> nat \<times> string option" where
  "ParseUint s = (if s = [] then (0, Some ErrSyntax) else ParseUint_loop 0 s)"

text \<open>A value of type \<^verbatim>\<open>int64\<close>: the two's complement reading of the low 64 bits.\<close>

definition int64 :: "int \<Rightarrow> int" where
  "int64 x = (x + 2 ^ 63) mod 2 ^ 64 - 2 ^ 63"

text \<open>
  \<^verbatim>\<open>ParseInt(s, 10, 64)\<close>. Go returns a value beside the error; the caller at hand drops it
  when the error is not \<^verbatim>\<open>nil\<close>, so the model returns the error alone.
\<close>

definition ParseInt_range :: "string \<Rightarrow> bool \<Rightarrow> nat \<Rightarrow> error + int" where
  "ParseInt_range s0 neg un =
     (if \<not> neg \<and> un \<ge> 2 ^ 63 then Inl (NumError ''ParseInt'' s0 ErrRange)
      else if neg \<and> un > 2 ^ 63 then Inl (NumError ''ParseInt'' s0 ErrRange)
      else Inr (if neg then int64 (- int64 (int un)) else int64 (int un)))"

definition ParseInt :: "string \<Rightarrow> error + int" where
  "ParseInt s =
     (if s = [] then Inl (NumError ''ParseInt'' s ErrSyntax)
      else
        (let neg = (hd s = CHR ''-'');
             s1 = (if hd s = CHR ''+'' \<or> hd s = CHR ''-'' then tl s else s)
         in case ParseUint s1 of
              (un, None) \<Rightarrow> ParseInt_range s neg un
            | (un, Some e) \<Rightarrow>
                (if e \<noteq> ErrRange then Inl (NumError ''ParseInt'' s e)
                 else ParseInt_range s neg un)))"

function uitoa :: "nat \<Rightarrow> string" where
  "uitoa n = (if n < 10 then [digitChar n] else uitoa (n div 10) @ [digitChar (n mod 10)])"
  by pat_completeness auto
termination
  by (relation "measure (\<lambda>n. n)") auto

declare uitoa.simps [simp del]

definition Itoa :: "int \<Rightarrow> string" where
  "Itoa i = (if i < 0 then CHR ''-'' # uitoa (nat (- i)) else uitoa (nat i))"

text \<open>
  Durations are \<^verbatim>\<open>int64\<close> numbers of nanoseconds; the constants are those of package
  \<^verbatim>\<open>time\<close>.
\<close>

definition Nanosecond :: int where "Nanosecond = 1"
definition Microsecond :: int where "Microsecond = 1000 * Nanosecond"
definition Millisecond :: int where "Millisecond = 1000 * Microsecond"
definition Second :: int where "Second = 1000 * Millisecond"
definition Minute :: int where "Minute = 60 * Second"
definition Hour :: int where "Hour = 60 * Minute"

text \<open>
  Modelled from the spec: \<^verbatim>\<open>defaults.Day\<close>, a constant of a package that is not among the
  files. The day suffix stands for 24 hours.
\<close>

definition Day :: int where "Day = 24 * Hour"

lemmas Duration_defs =
  Nanosecond_def Microsecond_def Millisecond_def Second_def Minute_def Hour_def Day_def

subsection \<open>The configuration and its collaborators\<close>

record WriterConfig =
  Target :: string
  Mode :: string
  BufferSize :: string
  BatchSize :: nat
  AutoSync :: string

record FileConfig =
  Path :: string
  FileMode :: nat  \<comment> \<open>the field \<^verbatim>\<open>Mode\<close> of \<^verbatim>\<open>FileConfig\<close>\<close>
  DirMode :: nat
  Rotate :: bool
  MaxSize :: string
  MaxAge :: string
  MaxBackups :: int

record Config =
  Level :: string
  Handler :: string
  Writer :: WriterConfig
  File :: FileConfig
  WithSource :: bool
  WithPID :: bool

definition NewDefaultConfig :: Config where
  "NewDefaultConfig =
     \<lparr>Level = ''debug'', Handler = ''text'',
      Writer = \<lparr>Target = ''stdout'', Mode = ''direct'', BufferSize = ''16KB'', BatchSize = 64,
                AutoSync = ''30s''\<rparr>,
      File = \<lparr>Path = ''./logit.log'', FileMode = 420, DirMode = 493, Rotate = False,
              MaxSize = ''200MB'', MaxAge = ''90d'', MaxBackups = 100\<rparr>,
      WithSource = False, WithPID = True\<rparr>"

text \<open>
  What \<^verbatim>\<open>newFile\<close> and \<^verbatim>\<open>newWriter\<close> call and the files at hand do not define, as
  parameters: \<^verbatim>\<open>size.ParseByteSize\<close>, \<^verbatim>\<open>time.ParseDuration\<close>, \<^verbatim>\<open>file.New\<close> (called with the
  path alone), \<^verbatim>\<open>os.MkdirAll\<close>, \<^verbatim>\<open>defaults.OpenFile\<close>, \<^verbatim>\<open>filepath.Dir\<close>, \<^verbatim>\<open>os.Stdout\<close>,
  \<^verbatim>\<open>os.Stderr\<close>, \<^verbatim>\<open>writer.Wrap\<close>, \<^verbatim>\<open>writer.Buffer\<close> and \<^verbatim>\<open>writer.Batch\<close>. \<open>'w\<close> is the type of
  the writers they make.
\<close>

record 'w env =
  ParseByteSize :: "string \<Rightarrow> error + nat"
  ParseDuration :: "string \<Rightarrow> error + int"
  file_New :: "string \<Rightarrow> error + 'w"
  MkdirAll :: "string \<Rightarrow> nat \<Rightarrow> error option"
  OpenFile :: "string \<Rightarrow> nat \<Rightarrow> error + 'w"
  Dir :: "string \<Rightarrow> string"
  Stdout :: 'w
  Stderr :: 'w
  Wrap :: "'w \<Rightarrow> 'w"
  Buffer :: "'w \<Rightarrow> nat \<Rightarrow> 'w"
  Batch :: "'w \<Rightarrow> nat \<Rightarrow> 'w"

definition parseTimeDuration :: "'w env \<Rightarrow> string \<Rightarrow> error + int" where
  "parseTimeDuration env s =
     (if HasSuffix s ''d'' \<or> HasSuffix s ''D'' then
        (let s = TrimSuffix s ''d'';
             s = TrimSuffix s ''D''
         in case ParseInt s of
              Inl err \<Rightarrow> Inl err
            | Inr days \<Rightarrow> Inr (int64 (days * Day)))
      else ParseDuration env s)"

text \<open>
  The options \<^verbatim>\<open>newFile\<close> collects for a rotating file. The function builds the list and
  then calls \<^verbatim>\<open>file.New(c.File.Path)\<close> without it, so the list decides nothing but which
  strings are parsed.
\<close>

datatype file_Option =
    WithMode nat
  | WithDirMode nat
  | WithTimeFormat string
  | WithMaxSize nat
  | WithMaxAge int
  | WithMaxBackups int

definition newFile :: "'w env \<Rightarrow> Config \<Rightarrow> error + 'w" where
  "newFile env c =
     (if Rotate (File c) then
        (let opts = [WithMode (FileMode (File c)), WithDirMode (DirMode (File c)),
                     WithTimeFormat ''20060102150405'']
         in case (if MaxSize (File c) \<noteq> [] then
                    (case ParseByteSize env (MaxSize (File c)) of
                       Inl err \<Rightarrow> Inl err
                     | Inr sz \<Rightarrow> Inr (opts @ [WithMaxSize sz]))
                  else Inr opts) of
              Inl err \<Rightarrow> Inl err
            | Inr opts \<Rightarrow>
                (case (if MaxAge (File c) \<noteq> [] then
                         (case parseTimeDuration env (MaxAge (File c)) of
                            Inl err \<Rightarrow> Inl err
                          | Inr age \<Rightarrow> Inr (opts @ [WithMaxAge age]))
                       else Inr opts) of
                   Inl err \<Rightarrow> Inl err
                 | Inr opts \<Rightarrow>
                     (let opts = (if MaxBackups (File c) > 0
                                  then opts @ [WithMaxBackups (MaxBackups (File c))] else opts)
                      in file_New env (Path (File c)))))
      else
        (case MkdirAll env (Dir env (Path (File c))) (DirMode (File c)) of
           Some err \<Rightarrow> Inl err
         | None \<Rightarrow> OpenFile env (Path (File c)) (FileMode (File c))))"

text \<open>
  \<^verbatim>\<open>newWriter\<close> returns the writer and, beside it, the frequency of the sync goroutine it
  has started, if it has started one (the \<^verbatim>\<open>go\<close> statement is its last step before
  \<^verbatim>\<open>return w, nil\<close>; the goroutine is \<open>forever (writer_tick frequency)\<close>).
\<close>

definition newWriter :: "'w env \<Rightarrow> Config \<Rightarrow> error + ('w \<times> int option)" where
  "newWriter env c =
     (case (if Target (Writer c) = ''stdout'' then Inr (Stdout env)
            else if Target (Writer c) = ''stderr'' then Inr (Stderr env)
            else if Target (Writer c) = ''file'' then
              (case newFile env c of Inl err \<Rightarrow> Inl err | Inr f \<Rightarrow> Inr (Wrap env f))
            else Inl (Errorf (''writer target '' @ Target (Writer c) @ '' invalid''))) of
        Inl err \<Rightarrow> Inl err
      | Inr w \<Rightarrow>
          (case (if Mode (Writer c) = ''direct'' then Inr w
                 else if Mode (Writer c) = ''buffer'' then
                   (case ParseByteSize env (BufferSize (Writer c)) of
                      Inl err \<Rightarrow> Inl err
                    | Inr sz \<Rightarrow> Inr (Buffer env w sz))
                 else if Mode (Writer c) = ''batch'' then Inr (Batch env w (BatchSize (Writer c)))
                 else Inl (Errorf (''writer mode '' @ Mode (Writer c) @ '' invalid''))) of
             Inl err \<Rightarrow> Inl err
           | Inr w \<Rightarrow>
               (if AutoSync (Writer c) \<noteq> [] then
                  (case ParseDuration env (AutoSync (Writer c)) of
                     Inl err \<Rightarrow> Inl err
                   | Inr frequency \<Rightarrow> Inr (w, Some frequency))
                else Inr (w, None))))"

subsection \<open>time.ParseDuration\<close>

text \<open>
  The standard library's parser of durations, \<^verbatim>\<open>[-+]?([0-9]*(\.[0-9]*)?[a-z]+)+\<close>, on
  \<^verbatim>\<open>uint64\<close>. \<^verbatim>\<open>leadingInt\<close> fails when the number passes \<open>2 ^ 63\<close>;
  \<^verbatim>\<open>leadingFraction\<close> stops counting digits when it would. The fraction's share,
  \<^verbatim>\<open>uint64(float64(f) * (float64(unit) / scale))\<close>, is floating-point arithmetic and is left
  as the parameter \<open>fm\<close> (applied to \<open>f\<close>, \<open>unit\<close> and \<open>scale\<close>). One turn of the loop of
  \<^verbatim>\<open>ParseDuration\<close> reads one number with its unit (\<open>ParseDuration_segment\<close>) and adds it
  to the sum.
\<close>

fun leadingInt_loop :: "nat \<Rightarrow> string \<Rightarrow> (nat \<times> string) option" where
  "leadingInt_loop x [] = Some (x, [])"
| "leadingInt_loop x (c # cs) =
     (if \<not> isDigit c then Some (x, c # cs)
      else if x > 2 ^ 63 div 10 then None
      else (let x1 = x * 10 + digitVal c in
            if x1 > 2 ^ 63 then None else leadingInt_loop x1 cs))"

definition leadingInt :: "string \<Rightarrow> (nat \<times> string) option" where
  "leadingInt s = leadingInt_loop 0 s"

fun leadingFraction_loop :: "nat \<Rightarrow> nat \<Rightarrow> bool \<Rightarrow> string \<Rightarrow> nat \<times> nat \<times> string" where
  "leadingFraction_loop x scale overflow [] = (x, scale, [])"
| "leadingFraction_loop x scale overflow (c # cs) =
     (if \<not> isDigit c then (x, scale, c # cs)
      else if overflow then leadingFraction_loop x scale overflow cs
      else if x > (2 ^ 63 - 1) div 10 then leadingFraction_loop x scale True cs
      else (let y = x * 10 + digitVal c in
            if y > 2 ^ 63 then leadingFraction_loop x scale True cs
            else leadingFraction_loop y (scale * 10) overflow cs))"

definition leadingFraction :: "string \<Rightarrow> nat \<times> nat \<times> string" where
  "leadingFraction s = leadingFraction_loop 0 1 False s"

text \<open>
  The units; the two spellings of the micro sign are the UTF-8 bytes of U+00B5 and
  U+03BC.
\<close>

definition unitMap :: "string \<Rightarrow> nat option" where
  "unitMap u =
     (if u = ''ns'' then Some 1
      else if u = ''us'' then Some 1000
      else if u = [CHR 0xC2, CHR 0xB5, CHR ''s''] then Some 1000
      else if u = [CHR 0xCE, CHR 0xBC, CHR ''s''] then Some 1000
      else if u = ''ms'' then Some 1000000
      else if u = ''s'' then Some 1000000000
      else if u = ''m'' then Some 60000000000
      else if u = ''h'' then Some 3600000000000
      else None)"

definition numberByte :: "char \<Rightarrow> bool" where
  "numberByte c \<longleftrightarrow> c = CHR ''.'' \<or> isDigit c"

definition ParseDuration_segment ::
  "(nat \<Rightarrow> nat \<Rightarrow> nat \<Rightarrow> nat) \<Rightarrow> string \<Rightarrow> string \<Rightarrow> error + (nat \<times> string)" where
  "ParseDuration_segment fm orig s =
     (if s = [] \<or> \<not> numberByte (hd s) then Inl (InvalidDuration orig)
      else
        (case leadingInt s of
           None \<Rightarrow> Inl (InvalidDuration orig)
         | Some (v, s1) \<Rightarrow>
             (let pre = (length s \<noteq> length s1);
                  fr = (if s1 \<noteq> [] \<and> hd s1 = CHR ''.'' then leadingFraction (tl s1) else (0, 1, s1));
                  f = fst fr;
                  scale = fst (snd fr);
                  s2 = snd (snd fr);
                  post = (s1 \<noteq> [] \<and> hd s1 = CHR ''.'' \<and> length (tl s1) \<noteq> length s2)
              in if \<not> pre \<and> \<not> post then Inl (InvalidDuration orig)
                 else
                   (let u = takeWhile (\<lambda>c. \<not> numberByte c) s2;
                        s3 = dropWhile (\<lambda>c. \<not> numberByte c) s2
                    in if u = [] then Inl (MissingUnit orig)
                       else
                         (case unitMap u of
                            None \<Rightarrow> Inl (UnknownUnit u orig)
                          | Some unit \<Rightarrow>
                              (if v > 2 ^ 63 div unit then Inl (InvalidDuration orig)
                               else
                                 (let v1 = v * unit;
                                      v2 = (if f > 0 then (v1 + fm f unit scale) mod 2 ^ 64 else v1)
                                  in if f > 0 \<and> v2 > 2 ^ 63 then Inl (InvalidDuration orig)
                                     else Inr (v2, s3))))))))"

lemma leadingInt_loop_length: "leadingInt_loop x s = Some (v, r) \<Longrightarrow> length r \<le> length s"
  by (induction x s rule: leadingInt_loop.induct) (auto simp: Let_def split: if_splits)

lemma leadingFraction_loop_length:
  "leadingFraction_loop x sc ov s = (f, sc', r) \<Longrightarrow> length r \<le> length s"
  by (induction x sc ov s rule: leadingFraction_loop.induct) (auto simp: Let_def split: if_splits)

lemma dropWhile_shorter: "takeWhile P xs \<noteq> [] \<Longrightarrow> length (dropWhile P xs) < length xs"
  by (cases xs) (auto simp: le_imp_less_Suc length_dropWhile_le split: if_splits)

lemma leadingFraction_length: "length (snd (snd (leadingFraction s))) \<le> length s"
proof -
  obtain f sc r where e: "leadingFraction s = (f, sc, r)"
    by (cases "leadingFraction s") auto
  then have "length r \<le> length s"
    unfolding leadingFraction_def by (rule leadingFraction_loop_length)
  with e show ?thesis by simp
qed

lemma fraction_rest_length:
  "length (snd (snd (if s1 \<noteq> [] \<and> hd s1 = CHR ''.'' then leadingFraction (tl s1) else (0, 1, s1))))
     \<le> length s1"
proof (cases "s1 \<noteq> [] \<and> hd s1 = CHR ''.''")
  case True
  have "length (snd (snd (leadingFraction (tl s1)))) \<le> length (tl s1)"
    by (rule leadingFraction_length)
  with True show ?thesis by simp
next
  case False
  then show ?thesis by auto
qed

lemma ParseDuration_segment_shorter:
  assumes "ParseDuration_segment fm orig s = Inr (v, r)"
  shows "length r < length s"
proof -
  from assms obtain x s1 where li: "leadingInt s = Some (x, s1)"
    by (auto simp: ParseDuration_segment_def split: if_splits option.splits)
  define s2 where "s2 = snd (snd (if s1 \<noteq> [] \<and> hd s1 = CHR ''.'' then leadingFraction (tl s1) else (0, 1, s1)))"
  from assms li have u: "takeWhile (\<lambda>c. \<not> numberByte c) s2 \<noteq> []"
    and r: "r = dropWhile (\<lambda>c. \<not> numberByte c) s2"
    by (auto simp: ParseDuration_segment_def Let_def s2_def split: if_splits option.splits)
  have "length s1 \<le> length s"
    using li unfolding leadingInt_def by (rule leadingInt_loop_length)
  moreover have "length s2 \<le> length s1"
    unfolding s2_def by (rule fraction_rest_length)
  moreover have "length r < length s2"
    unfolding r using u by (rule dropWhile_shorter)
  ultimately show ?thesis by simp
qed

function ParseDuration_loop ::
  "(nat \<Rightarrow> nat \<Rightarrow> nat \<Rightarrow> nat) \<Rightarrow> string \<Rightarrow> nat \<Rightarrow> string \<Rightarrow> error + nat" where
  "ParseDuration_loop fm orig d s =
     (if s = [] then Inr d
      else
        (case ParseDuration_segment fm orig s of
           Inl err \<Rightarrow> Inl err
         | Inr (v, s3) \<Rightarrow>
             (let d1 = (d + v) mod 2 ^ 64
              in if d1 > 2 ^ 63 then Inl (InvalidDuration orig)
                 else ParseDuration_loop fm orig d1 s3)))"
  by pat_completeness auto
termination
proof (relation "measure (\<lambda>(fm, orig, d, s). length s)", goal_cases)
  case 1
  show ?case by simp
next
  case (2 fm orig d s b x y d1)
  then have "ParseDuration_segment fm orig s = Inr (x, y)" by simp
  then have "length y < length s" by (rule ParseDuration_segment_shorter)
  then show ?case by simp
qed

declare ParseDuration_loop.simps [simp del]

definition time_ParseDuration :: "(nat \<Rightarrow> nat \<Rightarrow> nat \<Rightarrow> nat) \<Rightarrow> string \<Rightarrow> error + int" where
  "time_ParseDuration fm s =
     (let orig = s;
          neg = (s \<noteq> [] \<and> hd s = CHR ''-'');
          s = (if s \<noteq> [] \<and> (hd s = CHR ''-'' \<or> hd s = CHR ''+'') then tl s else s)
      in if s = ''0'' then Inr 0
         else if s = [] then Inl (InvalidDuration orig)
         else
           (case ParseDuration_loop fm orig 0 s of
              Inl err \<Rightarrow> Inl err
            | Inr d \<Rightarrow>
                (if neg then Inr (int64 (- int64 (int d)))
                 else if d > 2 ^ 63 - 1 then Inl (InvalidDuration orig)
                 else Inr (int64 (int d)))))"

section \<open>The default name generator (package files)\<close>

text \<open>
  \<^verbatim>\<open>DefaultNameGenerator\<close> seeds the global source of \<^verbatim>\<open>math/rand\<close> and returns a closure
  that names a file after the time given and a number drawn from that source.

  A \<^verbatim>\<open>time.Time\<close> is given by the calendar fields the layout \<^verbatim>\<open>20060102-150405\<close> prints.
  \<^verbatim>\<open>appendInt\<close> is the standard library's zero-padded decimal.
\<close>

record Time =
  year :: int
  month :: int
  day :: int
  hour :: int
  minute :: int
  second :: int

definition appendInt :: "int \<Rightarrow> nat \<Rightarrow> string" where
  "appendInt x width =
     (let digits = uitoa (nat \<bar>x\<bar>)
      in (if x < 0 then ''-'' else []) @ replicate (width - length digits) CHR ''0'' @ digits)"

definition Format :: "Time \<Rightarrow> string" where
  \<comment> \<open>\<^verbatim>\<open>now.Format("20060102-150405")\<close>\<close>
  "Format now =
     appendInt (year now) 4 @ appendInt (month now) 2 @ appendInt (day now) 2 @ ''-'' @
     appendInt (hour now) 2 @ appendInt (minute now) 2 @ appendInt (second now) 2"

text \<open>
  The global source: once seeded it is a fixed sequence of numbers, and each call of
  \<^verbatim>\<open>rand.Intn(n)\<close> consumes one element and returns a number below \<open>n\<close>. \<open>pending\<close> is
  the sequence (whatever the seed has made it), \<open>used\<close> the number of calls so far. The
  source has no lock of its own in the model; calls are taken one after the other.
\<close>

record Source =
  pending :: "nat \<Rightarrow> nat"
  used :: nat

definition Intn :: "nat \<Rightarrow> Source \<Rightarrow> nat \<times> Source" where
  "Intn n src = (pending src (used src) mod n, src\<lparr>used := used src + 1\<rparr>)"

text \<open>
  \<^verbatim>\<open>SuffixOfLogFile\<close> is declared in another file of the package; the example of the doc
  comment, \<^verbatim>\<open>20200304-145246-45.log\<close>, ends in \<^verbatim>\<open>.log\<close>. \<^verbatim>\<open>filepath.Join\<close> joins the elements
  that are not empty with the separator and cleans the result; \<^verbatim>\<open>filepath.Clean\<close> is the
  parameter \<open>Clean\<close>.
\<close>

definition SuffixOfLogFile :: string where
  "SuffixOfLogFile = ''.log''"

definition Join :: "(string \<Rightarrow> string) \<Rightarrow> string \<Rightarrow> string \<Rightarrow> string" where
  "Join Clean a b =
     (if a = [] \<and> b = [] then []
      else if a = [] then Clean b
      else if b = [] then Clean a
      else Clean (a @ ''/'' @ b))"

text \<open>One call of the closure: the path, and the source after the draw.\<close>

definition DefaultNameGenerator ::
  "(string \<Rightarrow> string) \<Rightarrow> string \<Rightarrow> Time \<Rightarrow> Source \<Rightarrow> string \<times> Source" where
  "DefaultNameGenerator Clean directory now src =
     (case Intn 1000000 src of
        (r, src') \<Rightarrow>
          (let name = Format now @ ''-'' @ Itoa (int r) @ SuffixOfLogFile
           in (Join Clean directory name, src')))"

definition NextName ::
  "(string \<Rightarrow> string) \<Rightarrow> string \<Rightarrow> Time \<Rightarrow> Source \<Rightarrow> string \<times> Source" where
  "NextName Clean directory now src = DefaultNameGenerator Clean directory now src"

text \<open>The paths of \<open>k\<close> calls in a row with the same directory and the same time.\<close>

fun names :: "(string \<Rightarrow> string) \<Rightarrow> string \<Rightarrow> Time \<Rightarrow> Source \<Rightarrow> nat \<Rightarrow> string list" where
  "names Clean directory now src 0 = []"
| "names Clean directory now src (Suc k) =
     (case NextName Clean directory now src of
        (p, src') \<Rightarrow> p # names Clean directory now src' k)"

section \<open>The rotating file sink\<close>

text \<open>
  Modelled from the spec: the methods of the rotating file sink and the state they
  need. Of the size-rolling file the files at hand hold the struct alone
  (\<^verbatim>\<open>SizeRollingFile\<close>: \<^verbatim>\<open>file\<close>, \<^verbatim>\<open>maxSize\<close>, \<^verbatim>\<open>currentSize\<close>, \<^verbatim>\<open>nextFilename\<close>, \<^verbatim>\<open>mu\<close>); its
  methods are in no file. The state below has the fields of the struct and those that
  sections 3 and 4.1 of the specification add (maximal age, maximal number of backups,
  whether rotation is enabled, the backups with their creation times). The name that
  \<^verbatim>\<open>nextFilename\<close> returns is an argument of the call that uses it.

  The file system is a map from paths to contents. Creating a file, writing to one and
  removing one can fail; which paths fail is part of the file system. \<open>reports\<close> are
  the invocations of the process-wide error handler.
\<close>

record fs =
  disk :: "string \<rightharpoonup> bytes"
  creatable :: "string \<Rightarrow> bool"
  writable :: "string \<Rightarrow> bool"
  removable :: "string \<Rightarrow> bool"
  reports :: "(string \<times> error) list"

record backup =
  b_path :: string
  b_created :: int

record SizeRollingFile =
  the_file :: string  \<comment> \<open>the field \<^verbatim>\<open>file\<close>: the path of the open file\<close>
  maxSize :: int
  currentSize :: int
  rotation :: bool
  maxAge :: int
  maxBackups :: nat
  created :: int
  backups :: "backup list"

definition open_append :: "fs \<Rightarrow> string \<Rightarrow> error + fs" where
  \<comment> \<open>open for append, creating the file if it is missing\<close>
  "open_append w path =
     (case disk w path of
        Some old \<Rightarrow> Inr w
      | None \<Rightarrow>
          (if creatable w path then Inr (w\<lparr>disk := (disk w)(path \<mapsto> [])\<rparr>)
           else Inl (Other ''cannot create file'')))"

definition append_bytes :: "fs \<Rightarrow> string \<Rightarrow> bytes \<Rightarrow> error + fs" where
  "append_bytes w path b =
     (case disk w path of
        None \<Rightarrow> Inl (Other ''file is gone'')
      | Some old \<Rightarrow>
          (if writable w path then Inr (w\<lparr>disk := (disk w)(path \<mapsto> old @ b)\<rparr>)
           else Inl (Other ''cannot write'')))"

fun remove_all :: "fs \<Rightarrow> string list \<Rightarrow> fs" where
  "remove_all w [] = w"
| "remove_all w (p # ps) =
     (if removable w p then remove_all (w\<lparr>disk := (disk w)(p := None)\<rparr>) ps
      else remove_all (w\<lparr>reports := reports w @ [(''prune'', Other ''cannot remove file'')]\<rparr>) ps)"

text \<open>
  Modelled from the spec: pruning, section 4.1 (\<^emph>\<open>delete any older than maxAge, and if
  remaining count exceeds maxBackups, delete oldest-first until within the cap\<close>; \<^emph>\<open>pruning
  errors are reported via the error-reporting collaborator but never fail the write\<close>).
  The backups are kept oldest first.
\<close>

definition prune :: "SizeRollingFile \<Rightarrow> fs \<Rightarrow> int \<Rightarrow> SizeRollingFile \<times> fs" where
  "prune sk w now =
     (let expired = filter (\<lambda>b. now - b_created b > maxAge sk) (backups sk);
          remaining = filter (\<lambda>b. \<not> now - b_created b > maxAge sk) (backups sk);
          excess = take (length remaining - maxBackups sk) remaining;
          kept = drop (length remaining - maxBackups sk) remaining
      in (sk\<lparr>backups := kept\<rparr>, remove_all w (map b_path (expired @ excess))))"

text \<open>
  Modelled from the spec: \<^verbatim>\<open>rotate\<close>, section 4.1 (\<^emph>\<open>close current file; generate a new path
  via generator(directory, now); open the new file; reset currentSize=0; then prune
  backups\<close>; \<^emph>\<open>if the new file cannot be created, the triggering write fails and the sink
  stays on the previous file\<close>). \<open>name\<close> is the path the generator returns for this
  call.
\<close>

definition sink_rotate :: "SizeRollingFile \<Rightarrow> fs \<Rightarrow> int \<Rightarrow> string \<Rightarrow> error option \<times> SizeRollingFile \<times> fs" where
  "sink_rotate sk w now name =
     (case open_append w name of
        Inl err \<Rightarrow> (Some err, sk, w)
      | Inr w1 \<Rightarrow>
          (let sk1 = sk\<lparr>backups := backups sk @ [\<lparr>b_path = the_file sk, b_created = created sk\<rparr>],
                        the_file := name, created := now, currentSize := 0\<rparr>
           in case prune sk1 w1 now of (sk2, w2) \<Rightarrow> (None, sk2, w2)))"

definition forward :: "SizeRollingFile \<Rightarrow> fs \<Rightarrow> bytes \<Rightarrow> (int \<times> error option) \<times> SizeRollingFile \<times> fs" where
  \<comment> \<open>the write to the open file; \<^emph>\<open>after a successful write, currentSize += n\<close>\<close>
  "forward sk w b =
     (case append_bytes w (the_file sk) b of
        Inl err \<Rightarrow> ((0, Some err), sk, w)
      | Inr w1 \<Rightarrow>
          ((int (length b), None), sk\<lparr>currentSize := currentSize sk + int (length b)\<rparr>, w1))"

text \<open>
  Modelled from the spec: \<^verbatim>\<open>write\<close>, section 4.1 (\<^emph>\<open>if rotation is disabled, forward
  directly. If enabled: when currentSize>0 AND currentSize+len(bytes)>maxSize, rotate
  before writing\<close>). One call, made while it holds the mutex.
\<close>

definition sink_write ::
  "SizeRollingFile \<Rightarrow> fs \<Rightarrow> int \<Rightarrow> string \<Rightarrow> bytes \<Rightarrow> (int \<times> error option) \<times> SizeRollingFile \<times> fs" where
  "sink_write sk w now name b =
     (if \<not> rotation sk then forward sk w b
      else if currentSize sk > 0 \<and> currentSize sk + int (length b) > maxSize sk then
        (case sink_rotate sk w now name of
           (Some err, sk1, w1) \<Rightarrow> ((0, Some err), sk1, w1)
         | (None, sk1, w1) \<Rightarrow> forward sk1 w1 b)
      else forward sk w b)"

text \<open>The condition under which a write rotates first.\<close>

definition must_rotate :: "SizeRollingFile \<Rightarrow> bytes \<Rightarrow> bool" where
  "must_rotate sk b \<longleftrightarrow> currentSize sk > 0 \<and> currentSize sk + int (length b) > maxSize sk"



section \<open>Concrete inputs\<close>

text \<open>The values at which the theorems below are instantiated.\<close>

definition plain :: object where
  "plain = \<lparr>hasFlush = False, hasSync = False, hasClose = False,
     onWrite = (\<lambda>cs p. (int (length p), None)), onFlush = (\<lambda>cs. (0, None)),
     onSync = (\<lambda>cs. None), onClose = (\<lambda>cs. None), calls = []\<rparr>"


text \<open>
  An object with \<^verbatim>\<open>Flush\<close> but no \<^verbatim>\<open>Close\<close>, and two loggers: one over a handler with the
  methods of \<^verbatim>\<open>jsonHandler\<close> (json.go: neither \<^verbatim>\<open>Sync\<close> nor \<^verbatim>\<open>Close\<close>), one over a handler
  with both whose \<^verbatim>\<open>Sync\<close> fails on every second call.
\<close>

definition flushOnly :: object where
  "flushOnly = plain\<lparr>hasFlush := True\<rparr>"

definition jsonLogger :: Logger where
  "jsonLogger = \<lparr>handler = plain, withSource = False, withPID = True, syncDuration = 0\<rparr>"

definition flaky :: object where
  "flaky = plain\<lparr>hasSync := True, hasClose := True,
     onSync := (\<lambda>cs. if even (length cs) then None else Some (Other ''disk full''))\<rparr>"

definition flakyLogger :: Logger where
  "flakyLogger = \<lparr>handler = flaky, withSource = False, withPID = True, syncDuration = 1000000000\<rparr>"


text \<open>
  Collaborators for the configuration: the writers are named by strings, sizes are
  the two of the default configuration, durations are parsed by \<open>time_ParseDuration\<close>
  (with exact arithmetic for the fraction's share), every file can be opened. In
  \<open>env_denied\<close> opening a file fails.
\<close>

definition env0 :: "string env" where
  "env0 =
     \<lparr>ParseByteSize = (\<lambda>s. if s = ''16KB'' then Inr 16384
                           else if s = ''200MB'' then Inr 209715200
                           else Inl (Other ''unknown byte size'')),
      ParseDuration = time_ParseDuration (\<lambda>f unit scale. f * unit div scale),
      file_New = (\<lambda>path. Inr (''rotate:'' @ path)),
      MkdirAll = (\<lambda>dir mode. None),
      OpenFile = (\<lambda>path mode. Inr (''file:'' @ path)),
      Dir = (\<lambda>path. ''.''),
      Stdout = ''stdout'',
      Stderr = ''stderr'',
      Wrap = (\<lambda>w. ''wrap('' @ w @ '')''),
      Buffer = (\<lambda>w n. ''buffer('' @ w @ '')''),
      Batch = (\<lambda>w n. ''batch('' @ w @ '')'')\<rparr>"

definition env_denied :: "string env" where
  "env_denied = env0\<lparr>OpenFile := (\<lambda>path mode. Inl (Other ''permission denied''))\<rparr>"

definition conf_7d :: Config where
  "conf_7d = NewDefaultConfig\<lparr>Writer := (Writer NewDefaultConfig)\<lparr>AutoSync := ''7d''\<rparr>\<rparr>"

definition conf_file :: Config where
  "conf_file = NewDefaultConfig\<lparr>Writer := (Writer NewDefaultConfig)\<lparr>Target := ''file''\<rparr>\<rparr>"

definition conf_kafka :: Config where
  "conf_kafka = NewDefaultConfig\<lparr>Writer := (Writer NewDefaultConfig)\<lparr>Target := ''kafka''\<rparr>\<rparr>"

text \<open>
  A clock reading and a source whose first two draws are both 45. The path below is
  clean already, so \<^verbatim>\<open>filepath.Clean\<close> returns it as it is.
\<close>

definition march4 :: Time where
  "march4 = \<lparr>year = 2020, month = 3, day = 4, hour = 14, minute = 52, second = 46\<rparr>"

definition source45 :: Source where
  "source45 = \<lparr>pending = (\<lambda>k. if k < 2 then 45 else 1000 + k), used = 0\<rparr>"

text \<open>
  A sink with \<^verbatim>\<open>maxSize = 100\<close> on an empty file \<^verbatim>\<open>a.log\<close>, in a file system where
  everything succeeds, and payloads of 60 and 150 bytes.
\<close>

definition disk0 :: fs where
  "disk0 = \<lparr>disk = [''a.log'' \<mapsto> []], creatable = (\<lambda>p. True), writable = (\<lambda>p. True),
     removable = (\<lambda>p. True), reports = []\<rparr>"

definition sink0 :: SizeRollingFile where
  "sink0 = \<lparr>the_file = ''a.log'', maxSize = 100, currentSize = 0, rotation = True,
     maxAge = 1000, maxBackups = 5, created = 0, backups = []\<rparr>"

definition payload60 :: bytes where "payload60 = replicate 60 7"

section \<open>Properties of the dispatch table\<close>

subsection \<open>Lookup\<close>

lemmas setter_defs =
  SetEncoder_def SetDebugEncoder_def SetInfoEncoder_def SetWarnEncoder_def SetErrorEncoder_def
  SetWriter_def SetDebugWriter_def SetInfoWriter_def SetWarnWriter_def SetErrorWriter_def

text \<open>
  Claim C1. A level other than debug, info and warn is looked up as the error level, in
  both tables; each of debug, info, warn and error is looked up in its own field.
\<close>

theorem of_dispatch:
  "(level \<noteq> DebugLevel \<and> level \<noteq> InfoLevel \<and> level \<noteq> WarnLevel \<longrightarrow>
      encoders_of es level = errorEncoder es \<and> writers_of ws level = errorWriter ws) \<and>
   encoders_of es DebugLevel = debugEncoder es \<and> writers_of ws DebugLevel = debugWriter ws \<and>
   encoders_of es InfoLevel = infoEncoder es \<and> writers_of ws InfoLevel = infoWriter ws \<and>
   encoders_of es WarnLevel = warnEncoder es \<and> writers_of ws WarnLevel = warnWriter ws \<and>
   encoders_of es ErrorLevel = errorEncoder es \<and> writers_of ws ErrorLevel = errorWriter ws"
  by (simp add: encoders_of_def writers_of_def Level_defs)

theorem of_dispatch_witness:
  "(200::Level) \<noteq> DebugLevel \<and> 200 \<noteq> InfoLevel \<and> 200 \<noteq> WarnLevel \<and>
   encoders_of \<lparr>debugEncoder = Some (1::nat), infoEncoder = Some 2, warnEncoder = Some 3,
                 errorEncoder = Some 4\<rparr> 200 = Some 4 \<and>
   writers_of \<lparr>debugWriter = Some (5::nat), infoWriter = Some 6, warnWriter = Some 7,
                errorWriter = Some 8\<rparr> 200 = Some 8 \<and>
   encoders_of \<lparr>debugEncoder = Some (1::nat), infoEncoder = Some 2, warnEncoder = Some 3,
                 errorEncoder = Some 4\<rparr> OffLevel = Some 4"
  using of_dispatch [of 200 "\<lparr>debugEncoder = Some (1::nat), infoEncoder = Some 2,
      warnEncoder = Some 3, errorEncoder = Some 4\<rparr>" "\<lparr>debugWriter = Some (5::nat),
      infoWriter = Some 6, warnWriter = Some 7, errorWriter = Some 8\<rparr>"]
    of_dispatch [of OffLevel "\<lparr>debugEncoder = Some (1::nat), infoEncoder = Some 2,
      warnEncoder = Some 3, errorEncoder = Some 4\<rparr>" "\<lparr>debugWriter = Some (5::nat),
      infoWriter = Some 6, warnWriter = Some 7, errorWriter = Some 8\<rparr>"]
  by (simp add: Level_defs)

subsection \<open>Non-nil invariant\<close>

lemma newCore_all_set: "encoder \<noteq> None \<Longrightarrow> writer \<noteq> None \<Longrightarrow> all_set (newCore encoder writer)"
  by (simp add: all_set_def newCore_def newEncoders_def newWriters_def)

lemma mutate_all_set: "all_set c \<Longrightarrow> mutation_arg_nonnil m \<Longrightarrow> all_set (mutate c m)"
  by (cases m) (simp_all add: all_set_def setter_defs)

lemma foldl_mutate_all_set:
  "all_set c \<Longrightarrow> list_all mutation_arg_nonnil ms \<Longrightarrow> all_set (foldl mutate c ms)"
proof (induction ms arbitrary: c)
  case Nil
  then show ?case by simp
next
  case (Cons m ms)
  from Cons.prems have "all_set (mutate c m)" and "list_all mutation_arg_nonnil ms"
    by (simp_all add: mutate_all_set)
  then show ?case using Cons.IH by simp
qed

lemma all_set_of:
  assumes "all_set c"
  shows "fst (core_of c level) \<noteq> None \<and> snd (core_of c level) \<noteq> None"
  using assms by (simp add: all_set_def core_of_def encoders_of_def writers_of_def)

text \<open>
  Claim C8. A table built by \<^verbatim>\<open>newCore\<close> from a non-nil encoder and a non-nil writer, and
  then changed by any sequence of setter calls with non-nil arguments, resolves every
  level (recognized or not) to a pair of a non-nil encoder and a non-nil writer.
\<close>

theorem of_never_nil:
  assumes "encoder \<noteq> None" and "writer \<noteq> None" and "list_all mutation_arg_nonnil ms"
  shows "fst (core_of (foldl mutate (newCore encoder writer) ms) level) \<noteq> None \<and>
         snd (core_of (foldl mutate (newCore encoder writer) ms) level) \<noteq> None"
  by (rule all_set_of) (rule foldl_mutate_all_set [OF newCore_all_set [OF assms(1,2)] assms(3)])

theorem of_never_nil_witness:
  "Some (1::nat) \<noteq> None \<and> Some (2::nat) \<noteq> None \<and>
   list_all mutation_arg_nonnil [MSetDebugEncoder (Some (3::nat)), MSetWriter (Some (4::nat))] \<and>
   core_of (foldl mutate (newCore (Some 1) (Some 2))
      [MSetDebugEncoder (Some 3), MSetWriter (Some 4)]) DebugLevel = (Some 3, Some 4) \<and>
   fst (core_of (foldl mutate (newCore (Some 1) (Some 2))
      [MSetDebugEncoder (Some 3), MSetWriter (Some 4)]) DebugLevel) \<noteq> None"
  using of_never_nil [of "Some (1::nat)" "Some (2::nat)"
      "[MSetDebugEncoder (Some 3), MSetWriter (Some 4)]" DebugLevel]
  by (simp add: core_of_def newCore_def newEncoders_def newWriters_def setter_defs
      encoders_of_def writers_of_def)

subsection \<open>Frame of the setters\<close>

text \<open>
  Claim C9. A setter of one level writes that level's field and no other field; the
  lookups of the other three recognized levels are unchanged. \<^verbatim>\<open>SetEncoder\<close> and
  \<^verbatim>\<open>SetWriter\<close> write all four fields with the same value. (The two tables are separate
  objects, so a setter of one cannot reach the other.)
\<close>

theorem setters_frame:
  "SetDebugEncoder es e = es\<lparr>debugEncoder := e\<rparr> \<and>
   SetInfoEncoder es e = es\<lparr>infoEncoder := e\<rparr> \<and>
   SetWarnEncoder es e = es\<lparr>warnEncoder := e\<rparr> \<and>
   SetErrorEncoder es e = es\<lparr>errorEncoder := e\<rparr> \<and>
   SetDebugWriter ws w = ws\<lparr>debugWriter := w\<rparr> \<and>
   SetInfoWriter ws w = ws\<lparr>infoWriter := w\<rparr> \<and>
   SetWarnWriter ws w = ws\<lparr>warnWriter := w\<rparr> \<and>
   SetErrorWriter ws w = ws\<lparr>errorWriter := w\<rparr> \<and>
   (\<forall>l \<in> {DebugLevel, InfoLevel, WarnLevel, ErrorLevel}.
      encoders_of (SetDebugEncoder es e) l = (if l = DebugLevel then e else encoders_of es l) \<and>
      encoders_of (SetInfoEncoder es e) l = (if l = InfoLevel then e else encoders_of es l) \<and>
      encoders_of (SetWarnEncoder es e) l = (if l = WarnLevel then e else encoders_of es l) \<and>
      encoders_of (SetErrorEncoder es e) l = (if l = ErrorLevel then e else encoders_of es l) \<and>
      writers_of (SetDebugWriter ws w) l = (if l = DebugLevel then w else writers_of ws l) \<and>
      writers_of (SetInfoWriter ws w) l = (if l = InfoLevel then w else writers_of ws l) \<and>
      writers_of (SetWarnWriter ws w) l = (if l = WarnLevel then w else writers_of ws l) \<and>
      writers_of (SetErrorWriter ws w) l = (if l = ErrorLevel then w else writers_of ws l) \<and>
      encoders_of (SetEncoder es e) l = e \<and>
      writers_of (SetWriter ws w) l = w) \<and>
   SetEncoder es e = es\<lparr>debugEncoder := e, infoEncoder := e, warnEncoder := e, errorEncoder := e\<rparr> \<and>
   SetWriter ws w = ws\<lparr>debugWriter := w, infoWriter := w, warnWriter := w, errorWriter := w\<rparr>"
  by (simp add: setter_defs encoders_of_def writers_of_def Level_defs)

theorem setters_frame_witness:
  "WarnLevel \<in> {DebugLevel, InfoLevel, WarnLevel, ErrorLevel} \<and>
   encoders_of (SetDebugEncoder (newEncoders (Some (1::nat))) (Some 2)) WarnLevel = Some 1 \<and>
   writers_of (SetWarnWriter (newWriters (Some (3::nat))) (Some 4)) WarnLevel = Some 4 \<and>
   encoders_of (SetEncoder (newEncoders (Some (1::nat))) (Some 5)) WarnLevel = Some 5"
  using setters_frame [of "newEncoders (Some (1::nat))" "Some 2" "newWriters (Some (3::nat))" "Some 4"]
    setters_frame [of "newEncoders (Some (1::nat))" "Some 5" "newWriters (Some (3::nat))" "Some 4"]
  by (simp add: newEncoders_def newWriters_def encoders_of_def writers_of_def Level_defs)

section \<open>Properties of the writers and of the logger\<close>

subsection \<open>Wrapped and Buffered\<close>

text \<open>
  Claim C10. \<^verbatim>\<open>Wrapped\<close> and \<^verbatim>\<open>Buffered\<close> return their argument itself when it has the
  methods of \<^verbatim>\<open>Writer\<close> (so \<^verbatim>\<open>Buffered\<close> then adds no buffer, whatever
  \<^verbatim>\<open>newBufferedWriter\<close> is). On the wrapper of a writer without \<^verbatim>\<open>Flush\<close>, \<^verbatim>\<open>Flush\<close> returns
  \<^verbatim>\<open>(0, nil)\<close>, and on the wrapper of a writer without \<^verbatim>\<open>Close\<close>, \<^verbatim>\<open>Close\<close> returns \<^verbatim>\<open>nil\<close>;
  in both cases the wrapped writer receives no call.
\<close>

theorem Wrapped_Buffered_identity:
  "(implementsWriter w \<longrightarrow> Wrapped w = w \<and> Buffered newBufferedWriter w = w) \<and>
   (\<not> implementsFlusher w \<longrightarrow>
      Wrapped w = WriterWrapper w \<and> Flush (Wrapped w) = ((0, None), Wrapped w)) \<and>
   (\<not> implementsCloser w \<longrightarrow>
      Wrapped w = WriterWrapper w \<and> Close (Wrapped w) = (None, Wrapped w))"
  by (simp add: Wrapped_def Buffered_def implementsWriter_def)

theorem Wrapped_Buffered_identity_witness:
  "implementsWriter (WriterWrapper (Ext plain)) \<and>
   Wrapped (WriterWrapper (Ext plain)) = WriterWrapper (Ext plain) \<and>
   Buffered (\<lambda>w n. Ext plain) (WriterWrapper (Ext plain)) = WriterWrapper (Ext plain) \<and>
   \<not> implementsFlusher (Ext plain) \<and> \<not> implementsCloser (Ext plain) \<and>
   Flush (Wrapped (Ext plain)) = ((0, None), WriterWrapper (Ext plain)) \<and>
   Close (Wrapped (Ext plain)) = (None, WriterWrapper (Ext plain)) \<and>
   calls_of (snd (Close (snd (Flush (Wrapped (Ext plain)))))) = []"
  using Wrapped_Buffered_identity [of "WriterWrapper (Ext plain)" "\<lambda>w n. Ext plain"]
    Wrapped_Buffered_identity [of "Ext plain" "\<lambda>w n. Ext plain"]
  by (simp add: implementsWriter_def plain_def)

subsection \<open>Close\<close>

lemma Close_no_Flush:
  "count_list (calls_of (snd (Close w))) FlushCall = count_list (calls_of w) FlushCall"
  by (induction w) (auto simp add: obj_Close_def split: prod.splits)

text \<open>
  Claim C6, as the code has it. \<^verbatim>\<open>Logger.Close\<close> calls the handler's \<^verbatim>\<open>Sync\<close> if the
  handler has one; if that fails it returns the error and does not close; otherwise it
  calls the handler's \<^verbatim>\<open>Close\<close> once, after the sync, if the handler has one, and returns
  its result, and returns \<^verbatim>\<open>nil\<close> without any close if it has none.
  \<^verbatim>\<open>writerWrapper.Close\<close> does not flush: it calls \<^verbatim>\<open>Close\<close> of the wrapped writer once
  if that has one and returns its result, and otherwise returns \<^verbatim>\<open>nil\<close> and calls nothing.
\<close>

theorem Close_trace:
  "calls (handler (snd (Logger_Close l))) =
     calls (handler l) @
     (if hasSync (handler l) then [SyncCall] else []) @
     (if fst (Logger_Sync l) = None \<and> hasClose (handler l) then [CloseCall] else []) \<and>
   fst (Logger_Close l) =
     (if fst (Logger_Sync l) \<noteq> None then fst (Logger_Sync l)
      else if hasClose (handler l) then onClose (handler l) (calls (handler (snd (Logger_Sync l))))
      else None) \<and>
   fst (Logger_Sync l) = (if hasSync (handler l) then onSync (handler l) (calls (handler l)) else None) \<and>
   calls_of (snd (Close (WriterWrapper (Ext x)))) =
     calls x @ (if hasClose x then [CloseCall] else []) \<and>
   fst (Close (WriterWrapper (Ext x))) = (if hasClose x then onClose x (calls x) else None) \<and>
   count_list (calls_of (snd (Close (WriterWrapper w)))) FlushCall = count_list (calls_of w) FlushCall"
proof -
  have sync: "fst (Logger_Sync l) = (if hasSync (handler l) then onSync (handler l) (calls (handler l)) else None)"
    by (simp add: Logger_Sync_def obj_Sync_def)
  have tr: "calls (handler (snd (Logger_Close l))) =
     calls (handler l) @
     (if hasSync (handler l) then [SyncCall] else []) @
     (if fst (Logger_Sync l) = None \<and> hasClose (handler l) then [CloseCall] else [])"
    by (simp add: Logger_Close_def Logger_Sync_def obj_Sync_def obj_Close_def split: option.splits)
  have res: "fst (Logger_Close l) =
     (if fst (Logger_Sync l) \<noteq> None then fst (Logger_Sync l)
      else if hasClose (handler l) then onClose (handler l) (calls (handler (snd (Logger_Sync l))))
      else None)"
    by (simp add: Logger_Close_def Logger_Sync_def obj_Sync_def obj_Close_def split: option.splits)
  have ww: "calls_of (snd (Close (WriterWrapper (Ext x)))) =
      calls x @ (if hasClose x then [CloseCall] else [])"
    "fst (Close (WriterWrapper (Ext x))) = (if hasClose x then onClose x (calls x) else None)"
    by (simp_all add: obj_Close_def)
  have nf: "count_list (calls_of (snd (Close (WriterWrapper w)))) FlushCall = count_list (calls_of w) FlushCall"
    using Close_no_Flush [of "WriterWrapper w"] by simp
  from sync tr res ww nf show ?thesis by blast
qed

theorem Close_trace_witness:
  "calls (handler (snd (Logger_Close flakyLogger))) = [SyncCall, CloseCall] \<and>
   fst (Logger_Close flakyLogger) = None \<and>
   calls (handler (snd (Logger_Close (snd (Logger_Sync flakyLogger))))) = [SyncCall, SyncCall] \<and>
   fst (Logger_Close (snd (Logger_Sync flakyLogger))) = Some (Other ''disk full'') \<and>
   calls_of (snd (Close (WriterWrapper (Ext flaky)))) = [CloseCall]"
  using Close_trace [of flakyLogger flaky "Ext flaky"]
    Close_trace [of "snd (Logger_Sync flakyLogger)" flaky "Ext flaky"]
  by (simp add: flakyLogger_def flaky_def plain_def Logger_Sync_def obj_Sync_def)

text \<open>
  Claim C6 as stated fails. The sync of \<open>jsonLogger\<close> succeeds and its \<^verbatim>\<open>Close\<close> returns
  \<^verbatim>\<open>nil\<close>, but nothing is closed: the handler has no \<^verbatim>\<open>Close\<close>. And closing the wrapper
  of a writer that can flush and cannot close flushes nothing.
\<close>

theorem Close_counterexample:
  "fst (Logger_Sync jsonLogger) = None \<and> fst (Logger_Close jsonLogger) = None \<and>
   count_list (calls (handler (snd (Logger_Close jsonLogger)))) CloseCall = 0 \<and>
   implementsFlusher (Ext flushOnly) \<and>
   Wrapped (Ext flushOnly) = WriterWrapper (Ext flushOnly) \<and>
   Close (Wrapped (Ext flushOnly)) = (None, Wrapped (Ext flushOnly)) \<and>
   calls_of (snd (Close (Wrapped (Ext flushOnly)))) = []"
  by (simp add: jsonLogger_def flushOnly_def plain_def Logger_Close_def Logger_Sync_def
      Wrapped_def implementsWriter_def)

subsection \<open>The sync tasks\<close>













section \<open>Properties of the configuration\<close>

subsection \<open>Decimal numbers: ParseInt after Itoa\<close>

lemma digitChar_code: "d < 10 \<Longrightarrow> (of_char (digitChar d) :: nat) = 48 + d"
  by (simp add: digitChar_def)

lemma isDigit_digitChar: "d < 10 \<Longrightarrow> isDigit (digitChar d)"
  by (simp add: isDigit_def digitChar_code)

lemma digitVal_digitChar: "d < 10 \<Longrightarrow> digitVal (digitChar d) = d"
  by (simp add: digitVal_def digitChar_code)

lemma isDigit_not_sign: "isDigit c \<Longrightarrow> c \<noteq> CHR ''-'' \<and> c \<noteq> CHR ''+'' \<and> c \<noteq> CHR ''d'' \<and> c \<noteq> CHR ''D''"
  by (auto simp: isDigit_def)

lemma ParseUint_loop_snoc:
  "ParseUint_loop n (cs @ [c]) =
     (case ParseUint_loop n cs of
        (m, None) \<Rightarrow> ParseUint_loop m [c]
      | (m, Some e) \<Rightarrow> (m, Some e))"
  by (induction n cs rule: ParseUint_loop.induct) (auto simp: Let_def split: prod.splits option.splits)

lemma uitoa_nonempty: "uitoa n \<noteq> []"
  by (subst uitoa.simps) simp

lemma uitoa_digits: "\<forall>c \<in> set (uitoa n). isDigit c"
proof (induction n rule: uitoa.induct)
  case (1 n)
  show ?case
  proof (cases "n < 10")
    case True
    then show ?thesis by (subst uitoa.simps) (simp add: isDigit_digitChar)
  next
    case False
    with 1 show ?thesis by (subst uitoa.simps) (simp add: isDigit_digitChar)
  qed
qed

lemma ParseUint_loop_digit:
  assumes "d < 10" and "m * 10 + d < 2 ^ 64"
  shows "ParseUint_loop m [digitChar d] = (m * 10 + d, None)"
proof -
  have "m < maxUint64 div 10 + 1" using assms by (simp add: maxUint64_def)
  moreover have "(m * 10 + d) mod 2 ^ 64 = m * 10 + d" using assms by simp
  moreover have "m * 10 + d \<le> maxUint64" using assms by (simp add: maxUint64_def)
  ultimately show ?thesis
    using assms(1) by (simp add: isDigit_digitChar digitVal_digitChar Let_def)
qed

lemma ParseUint_loop_uitoa: "n < 2 ^ 64 \<Longrightarrow> ParseUint_loop 0 (uitoa n) = (n, None)"
proof (induction n rule: uitoa.induct)
  case (1 n)
  show ?case
  proof (cases "n < 10")
    case True
    then have "ParseUint_loop 0 [digitChar n] = (0 * 10 + n, None)"
      by (intro ParseUint_loop_digit) simp_all
    with True show ?thesis by (subst uitoa.simps) simp
  next
    case False
    have "n div 10 < 2 ^ 64" using "1.prems" by simp
    with 1 False have ih: "ParseUint_loop 0 (uitoa (n div 10)) = (n div 10, None)" by simp
    have "ParseUint_loop (n div 10) [digitChar (n mod 10)] = (n div 10 * 10 + n mod 10, None)"
      using "1.prems" by (intro ParseUint_loop_digit) simp_all
    then have "ParseUint_loop (n div 10) [digitChar (n mod 10)] = (n, None)" by simp
    with ih False show ?thesis
      by (subst uitoa.simps) (simp add: ParseUint_loop_snoc)
  qed
qed

lemma ParseUint_uitoa: "n < 2 ^ 64 \<Longrightarrow> ParseUint (uitoa n) = (n, None)"
  by (simp add: ParseUint_def uitoa_nonempty ParseUint_loop_uitoa)

lemma hd_uitoa_digit: "isDigit (hd (uitoa n))"
  using uitoa_digits [of n] uitoa_nonempty [of n] by (cases "uitoa n") auto

lemma last_uitoa_digit: "isDigit (last (uitoa n))"
  using uitoa_digits [of n] uitoa_nonempty [of n] by (meson last_in_set)

lemma int64_id: "- (2 ^ 63) \<le> x \<Longrightarrow> x < 2 ^ 63 \<Longrightarrow> int64 x = x"
  by (simp add: int64_def)

lemma ParseInt_Itoa:
  assumes "- (2 ^ 63) \<le> i" and "i < 2 ^ 63"
  shows "ParseInt (Itoa i) = Inr i"
proof (cases "i < 0")
  case True
  define n where "n = nat (- i)"
  have n: "n \<le> 2 ^ 63" "int n = - i" using True assms by (auto simp: n_def)
  then have pu: "ParseUint (uitoa n) = (n, None)" by (intro ParseUint_uitoa) simp
  have "int64 (- int64 (int n)) = i"
  proof (cases "n = 2 ^ 63")
    case True
    then have "int n = 2 ^ 63" by simp
    then have "i = - (2 ^ 63)" using n by simp
    moreover have "int64 (2 ^ 63) = - (2 ^ 63)" by (simp add: int64_def)
    ultimately show ?thesis using \<open>int n = 2 ^ 63\<close> by (simp add: int64_def)
  next
    case False
    then have "int n < 2 ^ 63" using n(1) by simp
    then have "int64 (int n) = int n" by (intro int64_id) simp_all
    moreover have "int64 i = i" using assms by (intro int64_id)
    ultimately show ?thesis using n by simp
  qed
  with True pu n show ?thesis
    by (simp add: ParseInt_def Itoa_def n_def [symmetric] ParseInt_range_def)
next
  case False
  define n where "n = nat i"
  have n: "n < 2 ^ 63" "int n = i" using False assms by (auto simp: n_def)
  then have pu: "ParseUint (uitoa n) = (n, None)" by (intro ParseUint_uitoa) simp
  have hd: "hd (uitoa n) \<noteq> CHR ''-''" "hd (uitoa n) \<noteq> CHR ''+''"
    using hd_uitoa_digit [of n] isDigit_not_sign by auto
  have "int64 (int n) = i" using n assms by (simp add: int64_id)
  with False pu n hd show ?thesis
    by (simp add: ParseInt_def Itoa_def n_def [symmetric] ParseInt_range_def uitoa_nonempty)
qed

lemma last_Itoa_digit: "Itoa i \<noteq> [] \<and> isDigit (last (Itoa i))"
  by (simp add: Itoa_def uitoa_nonempty last_uitoa_digit)

lemma HasSuffix_snoc: "HasSuffix (s @ [c]) [c'] \<longleftrightarrow> c = c'"
  by (simp add: HasSuffix_def)

lemma HasSuffix_last: "s \<noteq> [] \<Longrightarrow> HasSuffix s [c] \<longleftrightarrow> last s = c"
  by (cases s rule: rev_cases) (simp_all add: HasSuffix_def)

lemma TrimSuffix_snoc: "TrimSuffix (s @ [c]) [c'] = (if c = c' then s else s @ [c])"
  by (simp add: TrimSuffix_def HasSuffix_snoc)

lemma TrimSuffix_Itoa: "TrimSuffix (Itoa i) ''d'' = Itoa i" "TrimSuffix (Itoa i) ''D'' = Itoa i"
  using last_Itoa_digit [of i] isDigit_not_sign [of "last (Itoa i)"]
  by (auto simp: TrimSuffix_def HasSuffix_last)

lemma day_product: "- 106751 \<le> n \<Longrightarrow> n \<le> 106751 \<Longrightarrow> int64 (n * Day) = n * Day"
proof -
  assume a: "- 106751 \<le> n" "n \<le> 106751"
  have "n * Day \<le> 106751 * Day" "- 106751 * Day \<le> n * Day"
    using a by (simp_all add: Duration_defs)
  then show ?thesis by (intro int64_id) (simp_all add: Duration_defs)
qed

lemma parseTimeDuration_day:
  assumes "- 106751 \<le> n" and "n \<le> 106751"
  shows "parseTimeDuration env (Itoa n @ ''d'') = Inr (n * Day)"
    and "parseTimeDuration env (Itoa n @ ''D'') = Inr (n * Day)"
proof -
  have p: "ParseInt (Itoa n) = Inr n" using assms by (intro ParseInt_Itoa) simp_all
  show "parseTimeDuration env (Itoa n @ ''d'') = Inr (n * Day)"
    using p day_product [OF assms]
    by (simp add: parseTimeDuration_def HasSuffix_snoc TrimSuffix_snoc TrimSuffix_Itoa)
  show "parseTimeDuration env (Itoa n @ ''D'') = Inr (n * Day)"
    using p day_product [OF assms]
    by (simp add: parseTimeDuration_def HasSuffix_snoc TrimSuffix_snoc TrimSuffix_Itoa)
qed

subsection \<open>time.ParseDuration has no day unit\<close>

lemma leadingInt_loop_append:
  "leadingInt_loop x ds = Some (m, []) \<Longrightarrow> leadingInt_loop x (ds @ r) = leadingInt_loop m r"
  by (induction x ds rule: leadingInt_loop.induct) (auto simp: Let_def split: if_splits)

lemma leadingInt_loop_digit:
  assumes "d < 10" and "m * 10 + d \<le> 2 ^ 63"
  shows "leadingInt_loop m [digitChar d] = Some (m * 10 + d, [])"
proof -
  have "\<not> m > 2 ^ 63 div 10" using assms by simp
  then show ?thesis
    using assms by (simp add: isDigit_digitChar digitVal_digitChar Let_def)
qed

lemma leadingInt_loop_uitoa: "n \<le> 2 ^ 63 \<Longrightarrow> leadingInt_loop 0 (uitoa n) = Some (n, [])"
proof (induction n rule: uitoa.induct)
  case (1 n)
  show ?case
  proof (cases "n < 10")
    case True
    then have "leadingInt_loop 0 [digitChar n] = Some (0 * 10 + n, [])"
      by (intro leadingInt_loop_digit) simp_all
    with True show ?thesis by (subst uitoa.simps) simp
  next
    case False
    have "n div 10 \<le> 2 ^ 63" using "1.prems" by simp
    with 1 False have ih: "leadingInt_loop 0 (uitoa (n div 10)) = Some (n div 10, [])" by simp
    have "leadingInt_loop (n div 10) [digitChar (n mod 10)] = Some (n div 10 * 10 + n mod 10, [])"
      using "1.prems" by (intro leadingInt_loop_digit) simp_all
    then have "leadingInt_loop (n div 10) [digitChar (n mod 10)] = Some (n, [])" by simp
    with False leadingInt_loop_append [OF ih, of "[digitChar (n mod 10)]"] show ?thesis
      by (subst uitoa.simps) simp
  qed
qed

lemma unitMap_day: "unitMap ''d'' = None" "unitMap ''D'' = None"
  by (simp_all add: unitMap_def)

lemma not_numberByte_day: "\<not> numberByte CHR ''d''" "\<not> numberByte CHR ''D''"
  by (simp_all add: numberByte_def isDigit_def)

lemma ParseDuration_segment_day:
  assumes "n \<le> 2 ^ 63" and "c = CHR ''d'' \<or> c = CHR ''D''"
  shows "ParseDuration_segment fm orig (uitoa n @ [c]) = Inl (UnknownUnit [c] orig)"
proof -
  have li: "leadingInt (uitoa n @ [c]) = Some (n, [c])"
    using leadingInt_loop_append [OF leadingInt_loop_uitoa [OF assms(1)], of "[c]"] assms(2)
    by (auto simp: leadingInt_def isDigit_def)
  have hd: "numberByte (hd (uitoa n @ [c]))"
    using hd_uitoa_digit [of n] uitoa_nonempty [of n] by (simp add: numberByte_def)
  from assms(2) li hd show ?thesis
    by (auto simp: ParseDuration_segment_def Let_def uitoa_nonempty unitMap_day not_numberByte_day)
qed

lemma ParseDuration_rejects_days:
  assumes "0 \<le> n" and "n \<le> 2 ^ 63" and "c = CHR ''d'' \<or> c = CHR ''D''"
  shows "time_ParseDuration fm (Itoa n @ [c]) = Inl (UnknownUnit [c] (Itoa n @ [c]))"
proof -
  have i: "Itoa n = uitoa (nat n)" using assms(1) by (simp add: Itoa_def)
  have b: "nat n \<le> 2 ^ 63" using assms(1,2) by simp
  have hd: "hd (uitoa (nat n) @ [c]) \<noteq> CHR ''-''" "hd (uitoa (nat n) @ [c]) \<noteq> CHR ''+''"
    using hd_uitoa_digit [of "nat n"] uitoa_nonempty [of "nat n"] isDigit_not_sign by auto
  have ne: "uitoa (nat n) @ [c] \<noteq> ''0''" "uitoa (nat n) @ [c] \<noteq> []"
    using uitoa_nonempty [of "nat n"] by (cases "uitoa (nat n)"; simp)+
  have "ParseDuration_loop fm (uitoa (nat n) @ [c]) 0 (uitoa (nat n) @ [c]) =
      Inl (UnknownUnit [c] (uitoa (nat n) @ [c]))"
    by (subst ParseDuration_loop.simps) (simp add: ParseDuration_segment_day [OF b assms(3)])
  with hd ne show ?thesis
    by (simp add: time_ParseDuration_def i Let_def)
qed

subsection \<open>Evaluation at concrete strings\<close>

lemma digitChar_simps:
  "digitChar 0 = CHR ''0''" "digitChar 1 = CHR ''1''" "digitChar 2 = CHR ''2''"
  "digitChar 3 = CHR ''3''" "digitChar 4 = CHR ''4''" "digitChar 5 = CHR ''5''"
  "digitChar 6 = CHR ''6''" "digitChar 7 = CHR ''7''" "digitChar 8 = CHR ''8''"
  "digitChar 9 = CHR ''9''" "digitChar (Suc 0) = CHR ''1''"
  unfolding digitChar_def by (simp_all add: char_of_def bit_Suc_0_iff)

lemmas Itoa_eval = Itoa_def uitoa.simps digitChar_simps

lemmas ParseInt_eval =
  HasSuffix_def TrimSuffix_def ParseInt_def ParseUint_def ParseInt_range_def isDigit_def
  digitVal_def maxUint64_def int64_def Let_def Duration_defs

lemmas ParseDuration_eval =
  time_ParseDuration_def ParseDuration_loop.simps ParseDuration_segment_def leadingInt_def
  leadingFraction_def unitMap_def numberByte_def isDigit_def digitVal_def Let_def int64_def

lemma ParseDuration_30s: "time_ParseDuration fm ''30s'' = Inr (30 * Second)"
  by (simp add: ParseDuration_eval Duration_defs)

lemma ParseDuration_7d: "time_ParseDuration fm ''7d'' = Inl (UnknownUnit ''d'' ''7d'')"
  by (simp add: ParseDuration_eval)

lemma newFile_default: "newFile env0 conf_file = Inr ''file:./logit.log''"
  by (simp add: newFile_def env0_def conf_file_def NewDefaultConfig_def)

subsection \<open>The day suffix\<close>

text \<open>
  Claim C4, as the code has it. \<^verbatim>\<open>parseTimeDuration\<close> reads the decimal representation
  of an integer \<open>n\<close> followed by \<^verbatim>\<open>d\<close> or \<^verbatim>\<open>D\<close> as \<open>n\<close> times 24 hours, for every \<open>n\<close> from
  \<open>-106751\<close> to \<open>106751\<close> (the days a \<^verbatim>\<open>time.Duration\<close> can hold), and hands a string with
  neither suffix to \<^verbatim>\<open>time.ParseDuration\<close>. It is \<^verbatim>\<open>newFile\<close> that calls it, on \<^verbatim>\<open>MaxAge\<close>;
  \<^verbatim>\<open>newWriter\<close> parses \<^verbatim>\<open>AutoSync\<close> with \<^verbatim>\<open>time.ParseDuration\<close> itself, so a writer is
  returned only if that function accepts the string as it is; and \<^verbatim>\<open>time.ParseDuration\<close>
  rejects the decimal representation of a number that is not negative followed by
  \<^verbatim>\<open>d\<close> or \<^verbatim>\<open>D\<close>, whatever the floating-point arithmetic \<open>fm\<close> does.
\<close>

theorem parseTimeDuration_day_suffix:
  "(- 106751 \<le> n \<and> n \<le> 106751 \<longrightarrow>
      parseTimeDuration env (Itoa n @ ''d'') = Inr (n * Day) \<and>
      parseTimeDuration env (Itoa n @ ''D'') = Inr (n * Day)) \<and>
   (\<not> HasSuffix s ''d'' \<and> \<not> HasSuffix s ''D'' \<longrightarrow>
      parseTimeDuration env s = ParseDuration env s) \<and>
   (Rotate (File c) \<and> MaxAge (File c) \<noteq> [] \<and> newFile env c = Inr f \<longrightarrow>
      \<not> isl (parseTimeDuration env (MaxAge (File c)))) \<and>
   (AutoSync (Writer c) \<noteq> [] \<and> newWriter env c = Inr (w, fr) \<longrightarrow>
      (\<exists>frequency. ParseDuration env (AutoSync (Writer c)) = Inr frequency \<and> fr = Some frequency)) \<and>
   (0 \<le> n \<and> n \<le> 2 ^ 63 \<longrightarrow>
      time_ParseDuration fm (Itoa n @ ''d'') = Inl (UnknownUnit ''d'' (Itoa n @ ''d'')) \<and>
      time_ParseDuration fm (Itoa n @ ''D'') = Inl (UnknownUnit ''D'' (Itoa n @ ''D'')))"
proof -
  have days: "- 106751 \<le> n \<and> n \<le> 106751 \<longrightarrow>
      parseTimeDuration env (Itoa n @ ''d'') = Inr (n * Day) \<and>
      parseTimeDuration env (Itoa n @ ''D'') = Inr (n * Day)"
    using parseTimeDuration_day [of n env] by blast
  have other: "\<not> HasSuffix s ''d'' \<and> \<not> HasSuffix s ''D'' \<longrightarrow>
      parseTimeDuration env s = ParseDuration env s"
    by (simp add: parseTimeDuration_def)
  have age: "Rotate (File c) \<and> MaxAge (File c) \<noteq> [] \<and> newFile env c = Inr f \<longrightarrow>
      \<not> isl (parseTimeDuration env (MaxAge (File c)))"
    by (auto simp: newFile_def Let_def split: if_splits sum.splits)
  have sync: "AutoSync (Writer c) \<noteq> [] \<and> newWriter env c = Inr (w, fr) \<longrightarrow>
      (\<exists>frequency. ParseDuration env (AutoSync (Writer c)) = Inr frequency \<and> fr = Some frequency)"
    by (auto simp: newWriter_def split: if_splits sum.splits)
  have std: "0 \<le> n \<and> n \<le> 2 ^ 63 \<longrightarrow>
      time_ParseDuration fm (Itoa n @ ''d'') = Inl (UnknownUnit ''d'' (Itoa n @ ''d'')) \<and>
      time_ParseDuration fm (Itoa n @ ''D'') = Inl (UnknownUnit ''D'' (Itoa n @ ''D''))"
    using ParseDuration_rejects_days [of n "CHR ''d''" fm]
      ParseDuration_rejects_days [of n "CHR ''D''" fm] by simp
  from days other age sync std show ?thesis by blast
qed

theorem parseTimeDuration_day_suffix_witness:
  "(- 106751 \<le> (90::int)) \<and> (90::int) \<le> 106751 \<and>
   parseTimeDuration env0 ''90d'' = Inr (90 * Day) \<and>
   parseTimeDuration env0 ''90D'' = Inr (90 * Day) \<and>
   \<not> HasSuffix ''30s'' ''d'' \<and> \<not> HasSuffix ''30s'' ''D'' \<and>
   parseTimeDuration env0 ''30s'' = Inr (30 * Second) \<and>
   AutoSync (Writer NewDefaultConfig) \<noteq> [] \<and>
   newWriter env0 NewDefaultConfig = Inr (''stdout'', Some (30 * Second)) \<and>
   ParseDuration env0 (AutoSync (Writer NewDefaultConfig)) = Inr (30 * Second)"
  using parseTimeDuration_day_suffix [where n = 90 and env = env0 and s = "''30s''"
      and c = NewDefaultConfig and w = "''stdout''" and fr = "Some (30 * Second)"]
  by (simp add: Itoa_eval HasSuffix_def newWriter_def env0_def NewDefaultConfig_def
      ParseDuration_30s)

text \<open>
  Claim C4 as stated fails twice. With \<^verbatim>\<open>AutoSync = "7d"\<close> (the decimal 7 and the day
  suffix) \<^verbatim>\<open>newWriter\<close> returns the error of \<^verbatim>\<open>time.ParseDuration\<close>, which knows no unit
  \<^verbatim>\<open>d\<close>. And \<^verbatim>\<open>parseTimeDuration\<close> maps \<^verbatim>\<open>106752d\<close> to a negative duration, because the
  product with \<^verbatim>\<open>defaults.Day\<close> does not fit 64 bits.
\<close>

theorem day_suffix_counterexample:
  "Itoa 7 @ ''d'' = ''7d'' \<and>
   AutoSync (Writer conf_7d) = ''7d'' \<and>
   newWriter env0 conf_7d = Inl (UnknownUnit ''d'' ''7d'') \<and>
   Itoa 106752 @ ''d'' = ''106752d'' \<and>
   parseTimeDuration env0 ''106752d'' = Inr (- 9223371273709551616) \<and>
   106752 * Day = 9223372800000000000"
proof -
  have a: "Itoa 7 @ ''d'' = ''7d''" "Itoa 106752 @ ''d'' = ''106752d''"
    by (simp_all add: Itoa_eval)
  have b: "AutoSync (Writer conf_7d) = ''7d''"
    by (simp add: conf_7d_def)
  have c: "newWriter env0 conf_7d = Inl (UnknownUnit ''d'' ''7d'')"
    by (simp add: newWriter_def env0_def conf_7d_def NewDefaultConfig_def ParseDuration_7d)
  have d: "parseTimeDuration env0 ''106752d'' = Inr (- 9223371273709551616)"
    by (simp add: parseTimeDuration_def ParseInt_eval)
  have e: "106752 * Day = 9223372800000000000"
    by (simp add: Duration_defs)
  from a b c d e show ?thesis by simp
qed

subsection \<open>Errors of newWriter\<close>

lemma newFile_isl:
  "isl (newFile env c) \<longleftrightarrow>
     (if Rotate (File c) then
        (MaxSize (File c) \<noteq> [] \<and> isl (ParseByteSize env (MaxSize (File c)))) \<or>
        (MaxAge (File c) \<noteq> [] \<and> isl (parseTimeDuration env (MaxAge (File c)))) \<or>
        isl (file_New env (Path (File c)))
      else
        MkdirAll env (Dir env (Path (File c))) (DirMode (File c)) \<noteq> None \<or>
        isl (OpenFile env (Path (File c)) (FileMode (File c))))"
  by (auto simp: newFile_def Let_def split: sum.splits option.splits)

lemma newWriter_isl:
  "isl (newWriter env c) \<longleftrightarrow>
     (Target (Writer c) \<noteq> ''stdout'' \<and> Target (Writer c) \<noteq> ''stderr'' \<and>
      Target (Writer c) \<noteq> ''file'') \<or>
     (Target (Writer c) = ''file'' \<and> isl (newFile env c)) \<or>
     (Mode (Writer c) \<noteq> ''direct'' \<and> Mode (Writer c) \<noteq> ''buffer'' \<and>
      Mode (Writer c) \<noteq> ''batch'') \<or>
     (Mode (Writer c) = ''buffer'' \<and> isl (ParseByteSize env (BufferSize (Writer c)))) \<or>
     (AutoSync (Writer c) \<noteq> [] \<and> isl (ParseDuration env (AutoSync (Writer c))))"
  by (auto simp: newWriter_def split: sum.splits)

lemma newWriter_task:
  "newWriter env c = Inr (w, fr) \<Longrightarrow>
     fr = (if AutoSync (Writer c) = [] then None else Some (projr (ParseDuration env (AutoSync (Writer c)))))"
  by (auto simp: newWriter_def split: sum.splits if_splits)

text \<open>
  Claim C7, as the code has it. \<^verbatim>\<open>newWriter\<close> returns an error, and with it neither a
  writer nor a started sync task, exactly when the target is none of \<^verbatim>\<open>stdout\<close>, \<^verbatim>\<open>stderr\<close>,
  \<^verbatim>\<open>file\<close>; or the target is \<^verbatim>\<open>file\<close> and \<^verbatim>\<open>newFile\<close> fails; or the mode is none of
  \<^verbatim>\<open>direct\<close>, \<^verbatim>\<open>buffer\<close>, \<^verbatim>\<open>batch\<close>; or the mode is \<^verbatim>\<open>buffer\<close> and \<^verbatim>\<open>BufferSize\<close> does not
  parse; or \<^verbatim>\<open>AutoSync\<close> is not empty and does not parse. \<^verbatim>\<open>newFile\<close> fails exactly when,
  for a rotating file, a non-empty \<^verbatim>\<open>MaxSize\<close> or \<^verbatim>\<open>MaxAge\<close> does not parse or \<^verbatim>\<open>file.New\<close>
  fails, and for a plain file, the directory cannot be made or the file cannot be
  opened. In every other case \<^verbatim>\<open>newWriter\<close> returns a writer, and has started a sync
  task (with the parsed frequency) exactly when \<^verbatim>\<open>AutoSync\<close> is not empty.
\<close>

theorem newWriter_error_iff:
  "(isl (newWriter env c) \<longleftrightarrow>
     (Target (Writer c) \<noteq> ''stdout'' \<and> Target (Writer c) \<noteq> ''stderr'' \<and>
      Target (Writer c) \<noteq> ''file'') \<or>
     (Target (Writer c) = ''file'' \<and> isl (newFile env c)) \<or>
     (Mode (Writer c) \<noteq> ''direct'' \<and> Mode (Writer c) \<noteq> ''buffer'' \<and>
      Mode (Writer c) \<noteq> ''batch'') \<or>
     (Mode (Writer c) = ''buffer'' \<and> isl (ParseByteSize env (BufferSize (Writer c)))) \<or>
     (AutoSync (Writer c) \<noteq> [] \<and> isl (ParseDuration env (AutoSync (Writer c))))) \<and>
   (isl (newFile env c) \<longleftrightarrow>
     (if Rotate (File c) then
        (MaxSize (File c) \<noteq> [] \<and> isl (ParseByteSize env (MaxSize (File c)))) \<or>
        (MaxAge (File c) \<noteq> [] \<and> isl (parseTimeDuration env (MaxAge (File c)))) \<or>
        isl (file_New env (Path (File c)))
      else
        MkdirAll env (Dir env (Path (File c))) (DirMode (File c)) \<noteq> None \<or>
        isl (OpenFile env (Path (File c)) (FileMode (File c))))) \<and>
   (\<not> isl (newWriter env c) \<longrightarrow>
     (\<exists>w. newWriter env c =
        Inr (w, if AutoSync (Writer c) = [] then None
                else Some (projr (ParseDuration env (AutoSync (Writer c)))))))"
proof -
  have "\<exists>w. newWriter env c =
        Inr (w, if AutoSync (Writer c) = [] then None
                else Some (projr (ParseDuration env (AutoSync (Writer c)))))"
    if "\<not> isl (newWriter env c)"
  proof -
    from that obtain w fr where r: "newWriter env c = Inr (w, fr)"
      by (cases "newWriter env c") auto
    from newWriter_task [OF r] r show ?thesis by blast
  qed
  with newWriter_isl [of env c] newFile_isl [of env c] show ?thesis by blast
qed

theorem newWriter_error_iff_witness:
  "isl (newWriter env0 conf_kafka) \<and>
   newWriter env0 conf_kafka = Inl (Errorf ''writer target kafka invalid'') \<and>
   \<not> isl (newWriter env0 conf_file) \<and>
   newWriter env0 conf_file = Inr (''wrap(file:./logit.log)'', Some (30 * Second))"
proof -
  have "Target (Writer conf_kafka) \<noteq> ''stdout'' \<and> Target (Writer conf_kafka) \<noteq> ''stderr'' \<and>
      Target (Writer conf_kafka) \<noteq> ''file''"
    by (simp add: conf_kafka_def)
  then have a: "isl (newWriter env0 conf_kafka)"
    using newWriter_error_iff [of env0 conf_kafka] by blast
  have b: "newWriter env0 conf_kafka = Inl (Errorf ''writer target kafka invalid'')"
    by (simp add: newWriter_def conf_kafka_def NewDefaultConfig_def)
  have c: "newWriter env0 conf_file = Inr (''wrap(file:./logit.log)'', Some (30 * Second))"
    by (simp add: newWriter_def newFile_default)
      (simp add: conf_file_def NewDefaultConfig_def env0_def ParseDuration_30s)
  from a b c show ?thesis by simp
qed

text \<open>
  Claim C7 as stated fails: \<open>conf_file\<close> has a valid target and a valid mode, and each
  of its size and duration strings parses, yet \<^verbatim>\<open>newWriter\<close> returns an error when the
  file cannot be opened.
\<close>

theorem newWriter_counterexample:
  "Target (Writer conf_file) = ''file'' \<and> Mode (Writer conf_file) = ''direct'' \<and>
   ParseByteSize env_denied (BufferSize (Writer conf_file)) = Inr 16384 \<and>
   ParseByteSize env_denied (MaxSize (File conf_file)) = Inr 209715200 \<and>
   parseTimeDuration env_denied (MaxAge (File conf_file)) = Inr (90 * Day) \<and>
   ParseDuration env_denied (AutoSync (Writer conf_file)) = Inr (30 * Second) \<and>
   newWriter env_denied conf_file = Inl (Other ''permission denied'')"
proof -
  have a: "parseTimeDuration env_denied ''90d'' = Inr (90 * Day)"
    by (simp add: parseTimeDuration_def ParseInt_eval)
  have b: "newWriter env_denied conf_file = Inl (Other ''permission denied'')"
    by (simp add: newWriter_def newFile_def env_denied_def env0_def conf_file_def
        NewDefaultConfig_def)
  from a b show ?thesis
    by (simp add: env_denied_def env0_def conf_file_def NewDefaultConfig_def ParseDuration_30s)
qed

section \<open>Properties of the name generator\<close>

lemma NextName_draw:
  "fst (NextName Clean directory now src) =
     Join Clean directory
       (Format now @ ''-'' @ Itoa (int (pending src (used src) mod 1000000)) @ SuffixOfLogFile)"
  by (simp add: NextName_def DefaultNameGenerator_def Intn_def)

lemma NextName_source:
  "snd (NextName Clean directory now src) = src\<lparr>used := used src + 1\<rparr>"
  by (simp add: NextName_def DefaultNameGenerator_def Intn_def)

text \<open>
  Two calls with the same directory and the same clock reading that draw the same
  number return the same path.
\<close>

lemma NextName_same_draw:
  assumes "pending src (used src) mod 1000000 = pending src' (used src') mod 1000000"
  shows "fst (NextName Clean directory now src) = fst (NextName Clean directory now src')"
  using assms by (simp add: NextName_draw)

lemma names_draws:
  "names Clean directory now src k =
     map (\<lambda>i. Join Clean directory
                 (Format now @ ''-'' @ Itoa (int (pending src (used src + i) mod 1000000)) @
                  SuffixOfLogFile)) [0..<k]"
proof (induction k arbitrary: src)
  case 0
  show ?case by simp
next
  case (Suc k)
  have "names Clean directory now src (Suc k) =
      fst (NextName Clean directory now src) #
      names Clean directory now (snd (NextName Clean directory now src)) k"
    by (simp add: case_prod_beta)
  also have "\<dots> =
      Join Clean directory
        (Format now @ ''-'' @ Itoa (int (pending src (used src) mod 1000000)) @ SuffixOfLogFile) #
      map (\<lambda>i. Join Clean directory
                 (Format now @ ''-'' @ Itoa (int (pending src (Suc (used src + i)) mod 1000000)) @
                  SuffixOfLogFile)) [0..<k]"
    by (simp add: Suc.IH NextName_draw NextName_source)
  also have "\<dots> =
      map (\<lambda>i. Join Clean directory
                 (Format now @ ''-'' @ Itoa (int (pending src (used src + i) mod 1000000)) @
                  SuffixOfLogFile)) [0..<Suc k]"
    by (simp add: upt_rec [of 0 "Suc k"] map_Suc_upt [symmetric] del: upt_Suc)
  finally show ?case .
qed

text \<open>
  No seed helps: there are a million numbers to draw, so among any 1000001 calls within
  one clock reading two paths are the same.
\<close>

lemma names_not_distinct: "\<not> distinct (names Clean directory now src 1000001)"
proof
  let ?f = "\<lambda>r. Join Clean directory (Format now @ ''-'' @ Itoa (int r) @ SuffixOfLogFile)"
  let ?draws = "map (\<lambda>i. pending src (used src + i) mod 1000000) [0..<1000001]"
  assume "distinct (names Clean directory now src 1000001)"
  then have "distinct (map ?f ?draws)"
    by (simp add: names_draws comp_def)
  then have "distinct ?draws" by (simp only: distinct_map)
  then have "card (set ?draws) = length ?draws" by (rule distinct_card)
  then have c: "card (set ?draws) = 1000001" by simp
  have "set ?draws \<subseteq> {..<1000000}" by auto
  then have "card (set ?draws) \<le> card {..<1000000::nat}" by (intro card_mono) simp_all
  with c show False by simp
qed

text \<open>
  Claim C3 fails on the code. Within the second 2020-03-04 14:52:46, in the directory
  \<^verbatim>\<open>logs\<close>, with a source that draws 45 twice, the two calls return the same path.
\<close>

theorem DefaultNameGenerator_collision:
  "fst (NextName (\<lambda>p. p) ''logs'' march4 source45) = ''logs/20200304-145246-45.log'' \<and>
   fst (NextName (\<lambda>p. p) ''logs'' march4 (snd (NextName (\<lambda>p. p) ''logs'' march4 source45))) =
     ''logs/20200304-145246-45.log'' \<and>
   names (\<lambda>p. p) ''logs'' march4 source45 2 =
     [''logs/20200304-145246-45.log'', ''logs/20200304-145246-45.log'']"
proof -
  have f: "Format march4 = ''20200304-145246''"
    by (simp add: Format_def march4_def appendInt_def uitoa.simps digitChar_simps)
  have i: "Itoa 45 = ''45''"
    by (simp add: Itoa_eval)
  have a: "fst (NextName (\<lambda>p. p) ''logs'' march4 source45) = ''logs/20200304-145246-45.log''"
    by (simp add: NextName_draw f source45_def i Join_def SuffixOfLogFile_def)
  have b: "fst (NextName (\<lambda>p. p) ''logs'' march4 (snd (NextName (\<lambda>p. p) ''logs'' march4 source45))) =
      ''logs/20200304-145246-45.log''"
    by (simp add: NextName_draw NextName_source f source45_def i Join_def SuffixOfLogFile_def)
  have c: "names (\<lambda>p. p) ''logs'' march4 source45 2 =
      [fst (NextName (\<lambda>p. p) ''logs'' march4 source45),
       fst (NextName (\<lambda>p. p) ''logs'' march4 (snd (NextName (\<lambda>p. p) ''logs'' march4 source45)))]"
    by (simp add: numeral_2_eq_2 case_prod_beta)
  from a b c show ?thesis by simp
qed

section \<open>Properties of the rotating file sink\<close>

lemma remove_all_fields [simp]:
  "creatable (remove_all w ps) = creatable w"
  "writable (remove_all w ps) = writable w"
  "removable (remove_all w ps) = removable w"
  by (induction w ps rule: remove_all.induct) simp_all










text \<open>
  When the new file cannot be made, the write fails and nothing changes: the sink stays
  on its file and no byte is written.
\<close>

lemma sink_write_create_fails:
  assumes "rotation sk" and "must_rotate sk b" and "disk w name = None" and "\<not> creatable w name"
  shows "sink_write sk w now name b = ((0, Some (Other ''cannot create file'')), sk, w)"
  using assms by (simp add: sink_write_def must_rotate_def sink_rotate_def open_append_def)


lemma first_write_60:
  "sink_write sink0 disk0 1 ''b.log'' payload60 =
     ((60, None), sink0\<lparr>currentSize := 60\<rparr>, disk0\<lparr>disk := [''a.log'' \<mapsto> payload60]\<rparr>)"
  by (simp add: sink_write_def forward_def append_bytes_def sink0_def disk0_def payload60_def)


end
